theory Spec2Isabelle
  imports Main "HOL-Library.Multiset"
begin

section \<open>Exceptions and outcomes\<close>

text \<open>
  The exceptions the modelled code can end with. \<open>SystemExit n\<close> is what the builtin
  \<open>exit(n)\<close> raises: the process terminates with status \<open>n\<close>.
\<close>

datatype exn =
    AssertionError
  | KeyError string
  | TypeError string
  | ValueError string
  | AttributeError string
  | NameError string
  | SystemExit int
  | ExternalError string

text \<open>
  How a call ends: it returns a value, it raises, or it never returns. The only way not
  to return is to wait at a \<open>prompt\<close> that the operator never answers (see \<open>prompt\<close>
  below).
\<close>

datatype 'a outcome = Returns 'a | Raises exn | Hangs

section \<open>Python's \<open>%\<close> string formatting\<close>

text \<open>
  The right operand of \<open>fmt % arg\<close>: a tuple of objects, or one object that is not a
  tuple; each object is given by its \<open>str()\<close>. Only the conversion \<open>%s\<close> and the
  escape \<open>%%\<close> occur in the source's strings; the model reports any other conversion as
  a \<open>ValueError\<close>.
\<close>

datatype fmt_arg = Obj string | Tuple "string list"

fun fmt_args :: "fmt_arg \<Rightarrow> string list" where
  "fmt_args (Obj s) = [s]"
| "fmt_args (Tuple ss) = ss"

text \<open>Fill the conversions from left to right; return the text and the arguments left over.\<close>

fun fill :: "string \<Rightarrow> string list \<Rightarrow> exn + string \<times> string list" where
  "fill [] args = Inr ([], args)"
| "fill [c] args =
     (if c = CHR ''%'' then Inl (ValueError ''incomplete format'') else Inr ([c], args))"
| "fill (c # d # cs) args =
     (if c = CHR ''%'' then
        (if d = CHR ''s'' then
           (case args of
              [] \<Rightarrow> Inl (TypeError ''not enough arguments for format string'')
            | a # rest \<Rightarrow>
                (case fill cs rest of
                   Inl e \<Rightarrow> Inl e
                 | Inr (s, left) \<Rightarrow> Inr (a @ s, left)))
         else if d = CHR ''%'' then
           (case fill cs args of
              Inl e \<Rightarrow> Inl e
            | Inr (s, left) \<Rightarrow> Inr (CHR ''%'' # s, left))
         else Inl (ValueError ''unsupported format character''))
      else
        (case fill (d # cs) args of
           Inl e \<Rightarrow> Inl e
         | Inr (s, left) \<Rightarrow> Inr (c # s, left)))"

definition py_format :: "string \<Rightarrow> fmt_arg \<Rightarrow> exn + string" where
  "py_format fmt arg =
     (case fill fmt (fmt_args arg) of
        Inl e \<Rightarrow> Inl e
      | Inr (s, left) \<Rightarrow>
          if left = [] then Inr s
          else Inl (TypeError ''not all arguments converted during string formatting''))"

text \<open>\<open>'/'.join(opts)\<close>.\<close>

fun join :: "string \<Rightarrow> string list \<Rightarrow> string" where
  "join sep [] = []"
| "join sep [s] = s"
| "join sep (s # t # ss) = s @ sep @ join sep (t # ss)"

section \<open>Rollout Priority Scheduler (up.py, \<open>_order_ec2_deployers_by_priority\<close>)\<close>

text \<open>
  The four local lists of the function. A deployer is an opaque object \<open>'d\<close>; its method
  \<open>get_node()\<close> and the node attributes \<open>is_operational\<close> and \<open>is_healthy\<close> are
  passed as functions. \<open>get_node()\<close> may return \<open>None\<close>; reading an attribute of
  \<open>None\<close> raises \<open>AttributeError\<close>.
\<close>

record 'd buckets =
  io_unhealthy :: "'d list"
  io_healthy :: "'d list"
  o_unhealthy :: "'d list"
  o_healthy :: "'d list"

definition no_buckets :: "'d buckets" where
  "no_buckets = \<lparr>io_unhealthy = [], io_healthy = [], o_unhealthy = [], o_healthy = []\<rparr>"

text \<open>The \<open>for ec2_deployer in ec2_deployers\<close> loop: one \<open>append\<close> per deployer.\<close>

fun classify_deployers ::
  "('d \<Rightarrow> 'n option) \<Rightarrow> ('n \<Rightarrow> bool) \<Rightarrow> ('n \<Rightarrow> bool) \<Rightarrow> 'd list \<Rightarrow> 'd buckets \<Rightarrow> exn + 'd buckets"
where
  "classify_deployers get_node is_operational is_healthy [] b = Inr b"
| "classify_deployers get_node is_operational is_healthy (ec2_deployer # rest) b =
     (case get_node ec2_deployer of
        None \<Rightarrow> Inl (AttributeError ''is_operational'')
      | Some node \<Rightarrow>
          if is_operational node then
            (if is_healthy node then
               classify_deployers get_node is_operational is_healthy rest
                 (b\<lparr>o_healthy := o_healthy b @ [ec2_deployer]\<rparr>)
             else
               classify_deployers get_node is_operational is_healthy rest
                 (b\<lparr>o_unhealthy := o_unhealthy b @ [ec2_deployer]\<rparr>))
          else
            (if is_healthy node then
               classify_deployers get_node is_operational is_healthy rest
                 (b\<lparr>io_healthy := io_healthy b @ [ec2_deployer]\<rparr>)
             else
               classify_deployers get_node is_operational is_healthy rest
                 (b\<lparr>io_unhealthy := io_unhealthy b @ [ec2_deployer]\<rparr>)))"

text \<open>The function: the loop, then \<open>return io_healthy + io_unhealthy + o_unhealthy + o_healthy\<close>.\<close>

definition order_ec2_deployers_by_priority ::
  "('d \<Rightarrow> 'n option) \<Rightarrow> ('n \<Rightarrow> bool) \<Rightarrow> ('n \<Rightarrow> bool) \<Rightarrow> 'd list \<Rightarrow> exn + 'd list"
where
  "order_ec2_deployers_by_priority get_node is_operational is_healthy ec2_deployers =
     (case classify_deployers get_node is_operational is_healthy ec2_deployers no_buckets of
        Inl e \<Rightarrow> Inl e
      | Inr b \<Rightarrow> Inr (io_healthy b @ io_unhealthy b @ o_unhealthy b @ o_healthy b))"

text \<open>
  The classification of one deployer by the pair (\<open>is_operational\<close>, \<open>is_healthy\<close>) of its
  node, used to state the properties; \<open>None\<close> when the node is absent.
\<close>

datatype bucket = InoperativeUnhealthy | InoperativeHealthy | OperationalUnhealthy | OperationalHealthy

definition bucket_of ::
  "('d \<Rightarrow> 'n option) \<Rightarrow> ('n \<Rightarrow> bool) \<Rightarrow> ('n \<Rightarrow> bool) \<Rightarrow> 'd \<Rightarrow> bucket option"
where
  "bucket_of get_node is_operational is_healthy d =
     (case get_node d of
        None \<Rightarrow> None
      | Some node \<Rightarrow>
          Some (if is_operational node
                then (if is_healthy node then OperationalHealthy else OperationalUnhealthy)
                else (if is_healthy node then InoperativeHealthy else InoperativeUnhealthy)))"

text \<open>
  The order the docstring of the function documents: 1. inoperative unhealthy,
  2. inoperative healthy, 3. operational unhealthy, 4. operational healthy.
\<close>

fun documented_rank :: "bucket option \<Rightarrow> nat" where
  "documented_rank (Some InoperativeUnhealthy) = 1"
| "documented_rank (Some InoperativeHealthy) = 2"
| "documented_rank (Some OperationalUnhealthy) = 3"
| "documented_rank (Some OperationalHealthy) = 4"
| "documented_rank None = 0"

section \<open>The world outside the core\<close>

text \<open>
  A node is known to the core by its identity, the text that \<open>str(node)\<close> gives in
  messages. \<open>None\<close> (a node not yet created) is \<open>None\<close> of \<open>node option\<close>.
\<close>

type_synonym node = string

text \<open>\<open>str()\<close> of an object that is a name or \<open>None\<close>.\<close>

definition py_str :: "string option \<Rightarrow> string" where
  "py_str n = (case n of None \<Rightarrow> ''None'' | Some name \<Rightarrow> name)"

subsection \<open>Configuration and deployers (built by \<open>up\<close>)\<close>

text \<open>
  The configuration of one node, a dict: the keys the code reads, each absent (\<open>None\<close>)
  or present. \<open>conf['seed']\<close> is a dict of strings, \<open>conf['seed_node']\<close> a dict of flags.
\<close>

record node_conf =
  seed :: "(string \<times> string) list option"
  seed_node :: "(string \<times> bool) list option"
  brain_wrinkles :: "(string \<times> string) list option"

text \<open>
  An environment configuration: section name (\<open>'ec2'\<close>, \<open>'rds'\<close>, \<open>'elb'\<close>) to the dict
  of that section, node name to node configuration, in iteration order.
\<close>

type_synonym environment_config = "(string \<times> (string \<times> node_conf) list) list"

text \<open>\<open>environment_config.get(section, {})\<close>.\<close>

definition get_section :: "environment_config \<Rightarrow> string \<Rightarrow> (string \<times> node_conf) list" where
  "get_section environment_config section =
     (case map_of environment_config section of None \<Rightarrow> [] | Some d \<Rightarrow> d)"

datatype klass = Ec2NodeDeployment | RdsNodeDeployment

text \<open>
  A NodeDeployer: the class it was constructed from and the keyword arguments of the
  constructor call in \<open>up\<close>. A \<open>Deployment\<close> is referred to by its name.
\<close>

record deployer =
  klass :: klass
  deployment :: string
  seed_deployment :: "string option"
  is_active :: bool
  aws_type :: string
  node_name :: string
  seed_node_name :: "string option"
  seed_verification :: bool
  brain_wrinkles_arg :: "(string \<times> string) list"
  conf :: node_conf

subsection \<open>Events and the state of a run\<close>

datatype level = Info | Warning | Critical

datatype logarg = S string | N nat

text \<open>
  The calls that leave the core, in the order they happen: log records (format string
  and arguments, as \<open>logger.info(fmt, args)\<close> passes them), prompts (the text shown),
  and the operations on nodes, deployers and deployments.
\<close>

datatype event =
    Log level string "logarg list"
  | Prompt string
  | VerifyDeploymentState string "bool option"
  | EnsureNodeCreated deployer
  | Run deployer
  | MakeTemporarilyInoperative node
  | MakeOperational node
  | Sleep nat
  | RepairActiveGeneration bool "bool option"
  | Notify deployer
  | Announce

text \<open>
  The state of a run: the events so far, and the lines the operator will still type at
  prompts, in order.
\<close>

record world =
  trace :: "event list"
  stdin :: "string list"

definition emit :: "event \<Rightarrow> world \<Rightarrow> world" where
  "emit e w = w\<lparr>trace := trace w @ [e]\<rparr>"

definition log :: "level \<Rightarrow> string \<Rightarrow> logarg list \<Rightarrow> world \<Rightarrow> world" where
  "log lvl fmt args w = emit (Log lvl fmt args) w"

text \<open>
  The collaborators of the core (section 6 of the specification), whose answers may
  depend on everything that happened before: each takes the events so far. A call that
  only asks (\<open>get_node()\<close>, \<open>is_operational\<close>, \<open>has_required_redundancy()\<close>, ...) is
  not an event; its answer is read here. A call that may raise has its exception, if
  any, here. The constants \<open>ACTIVE\<close> and \<open>DT_NOTIFY\<close> are imported from modules outside
  the core.
\<close>

record externals =
  get_environment_config :: "string \<Rightarrow> environment_config"
  get_seed_environment_name :: "string \<Rightarrow> string option"
  verify_deployment_state_fails :: "event list \<Rightarrow> string \<Rightarrow> exn option"
  get_node_at :: "event list \<Rightarrow> deployer \<Rightarrow> node option"
  ensure_node_created_fails :: "event list \<Rightarrow> deployer \<Rightarrow> exn option"
  run_fails :: "event list \<Rightarrow> deployer \<Rightarrow> exn option"
  is_operational_at :: "event list \<Rightarrow> node \<Rightarrow> bool"
  is_healthy_at :: "event list \<Rightarrow> node \<Rightarrow> bool"
  has_required_redundancy_at :: "event list \<Rightarrow> node \<Rightarrow> bool"
  make_operational_fails :: "event list \<Rightarrow> node \<Rightarrow> bool"
  get_health_check_url :: "node \<Rightarrow> string"
  repair_active_generation_at :: "event list \<Rightarrow> bool \<Rightarrow> bool option \<Rightarrow> string list"
  active_is_fully_operational_at :: "event list \<Rightarrow> bool"
  env_interactive :: "bool option"
  ACTIVE :: string
  DT_NOTIFY :: bool

text \<open>An external call that may raise: the event, then the exception if there is one.\<close>

definition external_call :: "event \<Rightarrow> exn option \<Rightarrow> world \<Rightarrow> unit outcome \<times> world" where
  "external_call e failure w =
     (case failure of
        None \<Rightarrow> (Returns (), emit e w)
      | Some ex \<Rightarrow> (Raises ex, emit e w))"

text \<open>Sequencing: the second step runs when the first one returns.\<close>

definition and_then ::
  "(world \<Rightarrow> 'a outcome \<times> world) \<Rightarrow> ('a \<Rightarrow> world \<Rightarrow> 'b outcome \<times> world) \<Rightarrow>
   world \<Rightarrow> 'b outcome \<times> world"
where
  "and_then m f w =
     (case m w of
        (Returns a, w') \<Rightarrow> f a w'
      | (Raises e, w') \<Rightarrow> (Raises e, w')
      | (Hangs, w') \<Rightarrow> (Hangs, w'))"

text \<open>\<open>exit(n)\<close>.\<close>

definition exit_with :: "int \<Rightarrow> world \<Rightarrow> 'a outcome \<times> world" where
  "exit_with n w = (Raises (SystemExit n), w)"

subsection \<open>Prompts\<close>

text \<open>
  \<open>prompt(text)\<close> of Fabric: shows the text and returns the line the operator types.
  When the operator types nothing more, the call never returns.
\<close>

definition prompt :: "string \<Rightarrow> world \<Rightarrow> string outcome \<times> world" where
  "prompt text w =
     (case stdin w of
        [] \<Rightarrow> (Hangs, emit (Prompt text) w)
      | answer # later \<Rightarrow> (Returns answer, (emit (Prompt text) w)\<lparr>stdin := later\<rparr>))"

text \<open>
  The loop that stands three times in up.py:
  \<^verbatim>\<open>
  user_opt = None
  while not user_opt in opts:
      user_opt = prompt(<format> % <argument>)
  \<close>
  The text is formatted again in every round; \<open>text\<close> is the result of that formatting,
  which raises when the format and the argument do not fit.
\<close>

function prompt_until_valid ::
  "string list \<Rightarrow> exn + string \<Rightarrow> string option \<Rightarrow> world \<Rightarrow> string outcome \<times> world"
where
  "prompt_until_valid opts text user_opt w =
     (case (case user_opt of None \<Rightarrow> None | Some a \<Rightarrow> if a \<in> set opts then Some a else None) of
        Some a \<Rightarrow> (Returns a, w)
      | None \<Rightarrow>
          (case text of
             Inl e \<Rightarrow> (Raises e, w)
           | Inr t \<Rightarrow>
               (case prompt t w of
                  (Returns a, w') \<Rightarrow> prompt_until_valid opts text (Some a) w'
                | (Raises e, w') \<Rightarrow> (Raises e, w')
                | (Hangs, w') \<Rightarrow> (Hangs, w'))))"
  by pat_completeness auto
termination
  by (relation "measure (\<lambda>(opts, text, user_opt, w). length (stdin w))")
     (auto simp: prompt_def emit_def split: list.splits)

section \<open>Seamless Rotation Protocol (up.py, \<open>seamless_modification\<close>)\<close>

text \<open>
  \<open>seamless_modification\<close> is a generator-based context manager: the code before
  \<open>yield\<close> runs on entry, the body of the \<open>with\<close> statement runs at the \<open>yield\<close>, the
  code after it runs when the body has returned. An exception of the body propagates:
  no \<open>try\<close> stands around the \<open>yield\<close>. The definitions below follow the function top
  to bottom; each loop is a recursive function.
\<close>

text \<open>\<open>env.get('interactive', True)\<close>.\<close>

definition interactive :: "externals \<Rightarrow> bool" where
  "interactive x = (case env_interactive x of None \<Rightarrow> True | Some b \<Rightarrow> b)"

text \<open>Lines 312 to 332: the redundancy check.\<close>

definition check_redundancy ::
  "externals \<Rightarrow> node option \<Rightarrow> bool \<Rightarrow> world \<Rightarrow> unit outcome \<times> world"
where
  "check_redundancy x node force_seamless w =
     (case node of
        None \<Rightarrow> (Returns (), w)
      | Some n \<Rightarrow>
          if force_seamless then
            (if has_required_redundancy_at x (trace w) n then (Returns (), w)
             else if interactive x then
               (case py_format (''\<newline>\<newline>Not possible to avoid service interruption to node '' @
                                ''%s. Continue anyway? (Y/N)'') (Obj n) of
                  Inl e \<Rightarrow> (Raises e, w)
                | Inr text \<Rightarrow>
                    and_then (prompt text)
                      (\<lambda>continue_anyway w'.
                         if continue_anyway \<noteq> ''Y'' then
                           (case py_format (''Node %s doesn't have required redundancy. '' @
                                            ''Aborting'') (Obj n) of
                              Inl e \<Rightarrow> (Raises e, w')
                            | Inr msg \<Rightarrow> exit_with 1 (log Critical msg [] w'))
                         else (Returns (), w'))
                      w)
             else
               exit_with 1
                 (log Critical ''Deployment marked non-interactive. Aborting.'' []
                   (log Critical ''Not possible to avoid service interruption to node %s'' [S n] w)))
          else (Returns (), w))"

text \<open>
  Lines 336 to 341: an operational node is rotated out, and \<open>make_operational\<close> is set.
  The result is the value of \<open>make_operational\<close> afterwards.
\<close>

definition rotate_out :: "externals \<Rightarrow> node option \<Rightarrow> bool \<Rightarrow> world \<Rightarrow> bool \<times> world" where
  "rotate_out x node make_operational w =
     (case node of
        None \<Rightarrow> (make_operational, w)
      | Some n \<Rightarrow>
          if is_operational_at x (trace w) n then
            (True,
             log Info ''Node %s now inoperative'' [S n]
               (emit (MakeTemporarilyInoperative n)
                 (log Info ''Making temporarily inoperative: %s'' [S n] w)))
          else (make_operational, w))"

subsection \<open>Operational Convergence Loop, single-node mode (lines 349 to 400)\<close>

definition opts_IRF :: "string list" where
  "opts_IRF = [''I'', ''R'', ''F'']"

definition auto_retries :: nat where
  "auto_retries = 10"

text \<open>
  Lines 356 to 374, one round of the loop up to the test of \<open>count\<close>:
  \<open>make_operational()\<close> with its exception swallowed, the check, the wait of one second,
  the second check. The result is whether the node was seen operational (the loop then
  returns).
\<close>

definition attempt_make_operational :: "externals \<Rightarrow> node \<Rightarrow> world \<Rightarrow> bool \<times> world" where
  "attempt_make_operational x n w =
     (let w1 = emit (MakeOperational n) w;
          w2 = (if make_operational_fails x (trace w) n
                then log Warning ''Failed to make node %s operational'' [S n] w1
                else w1)
      in if is_operational_at x (trace w2) n then
           (True, log Info ''Node %s now operational'' [S n] w2)
         else
           (let w3 = emit (Sleep 1) (log Info ''Waiting 1s for node to become operational'' [] w2)
            in if is_operational_at x (trace w3) n then
                 (True, log Info ''Node %s now operational'' [S n] w3)
               else (False, w3)))"

text \<open>Lines 381 to 389: the two log records and the prompt loop.\<close>

definition ask_about_node :: "externals \<Rightarrow> node \<Rightarrow> world \<Rightarrow> string outcome \<times> world" where
  "ask_about_node x n w =
     prompt_until_valid opts_IRF
       (py_format ''Node %s not made operational. Ignore/Retry/Fail (I/R/F)?'' (Obj n)) None
       (log Info ''Health check URL: %s'' [S (get_health_check_url x n)]
         (log Info ''Node %s not operational.'' [S n] w))"

text \<open>
  The \<open>while True\<close> loop, with \<open>count\<close> (here \<open>count'\<close>) as its state. \<open>continue\<close> is the recursive call.
  The last \<open>else\<close> stands for an answer that is none of R, I and F, where the Python
  falls through to the next round (the prompt loop never returns such an answer). The
  loop is left by \<open>return\<close> or \<open>exit(1)\<close> only, so the log call that follows it in the
  source (line 400) is never reached and has no counterpart here.
\<close>

function restore_node :: "externals \<Rightarrow> node \<Rightarrow> nat \<Rightarrow> world \<Rightarrow> unit outcome \<times> world" where
  "restore_node x n count' w =
     (case attempt_make_operational x n w of
        (True, w1) \<Rightarrow> (Returns (), w1)
      | (False, w1) \<Rightarrow>
          if count' < auto_retries then
            restore_node x n (count' + 1) (log Info ''Still not operational. Trying again.'' [] w1)
          else
            (case ask_about_node x n w1 of
               (Returns user_opt, w2) \<Rightarrow>
                 if user_opt = ''R'' then restore_node x n count' w2
                 else if user_opt = ''I'' then (Returns (), w2)
                 else if user_opt = ''F'' then
                   exit_with 1 (log Critical ''Node %s not healthy. Aborting deployment'' [S n] w2)
                 else restore_node x n count' w2
             | (Raises e, w2) \<Rightarrow> (Raises e, w2)
             | (Hangs, w2) \<Rightarrow> (Hangs, w2)))"
  by pat_completeness auto
termination
proof -
  have shrink: "length (stdin w') \<le> length (stdin w) \<and> (u = None \<longrightarrow> length (stdin w') < length (stdin w))"
    if "prompt_until_valid opts fm u w = (Returns a, w')" for opts fm u w a w'
    using that
  proof (induction opts fm u w rule: prompt_until_valid.induct)
    case (1 opts fm user_opt w)
    show ?case
    proof (cases "case user_opt of None \<Rightarrow> None | Some a \<Rightarrow> if a \<in> set opts then Some a else None")
      case (Some b)
      with "1.prems" show ?thesis
        by (auto split: option.splits if_splits)
    next
      case None
      with "1.prems" obtain t where t: "fm = Inr t"
        by (cases fm) auto
      with None "1.prems" obtain b w1 where p: "prompt t w = (Returns b, w1)"
        and rec: "prompt_until_valid opts fm (Some b) w1 = (Returns a, w')"
        by (auto split: prod.splits outcome.splits)
      from p have "length (stdin w1) < length (stdin w)"
        by (auto simp: prompt_def emit_def split: list.splits)
      moreover from "1.IH" [OF None t _ _ rec] p
      have "length (stdin w') \<le> length (stdin w1)"
        by simp
      ultimately show ?thesis by simp
    qed
  qed
  have same: "stdin w1 = stdin w" if "(b, w1) = attempt_make_operational x n w" for x n w b w1
    using that [symmetric]
    by (auto simp: attempt_make_operational_def Let_def emit_def log_def split: if_splits)
  have asked: "length (stdin w2) < length (stdin w)"
    if "(b, w1) = attempt_make_operational x n w" and "(r, w2) = ask_about_node x n w1"
      and "r = Returns user_opt"
    for x n w b w1 r user_opt w2
  proof -
    from that(2,3) have "length (stdin w2) <
        length (stdin (log Info ''Health check URL: %s'' [S (get_health_check_url x n)]
         (log Info ''Node %s not operational.'' [S n] w1)))"
      using shrink [of opts_IRF _ None _ user_opt w2]
      by (simp add: ask_about_node_def)
    with same [OF that(1)] show ?thesis
      by (simp add: log_def emit_def)
  qed
  show ?thesis
    apply (relation "measures [\<lambda>(x, n, count', w). length (stdin w),
                               \<lambda>(x, n, count', w). auto_retries - count']")
    subgoal by simp
    subgoal for x n count' w xa y
      using same [of xa y x n w] by (auto simp: log_def emit_def)
    subgoal for x n count' w xa y xaa ya x1
      using asked [of xa y x n w xaa ya x1] by simp
    subgoal for x n count' w xa y xaa ya x1
      using asked [of xa y x n w xaa ya x1] by simp
    done
qed

subsection \<open>Operational Convergence Loop, generation mode (lines 403 to 426)\<close>

text \<open>
  The prompt loop of this branch formats \<open>prompt_str % node\<close>, where \<open>node\<close> is the
  (false) node the branch was entered with and \<open>prompt_str\<close> has no conversion.
\<close>

definition ask_about_generation :: "node option \<Rightarrow> world \<Rightarrow> string outcome \<times> world" where
  "ask_about_generation node w =
     prompt_until_valid opts_IRF
       (py_format (''Active generation not fully operational. '' @ ''Ignore/Retry/Fail (I/R/F)?'')
          (Obj (py_str node)))
       None w"

function restore_generation ::
  "externals \<Rightarrow> node option \<Rightarrow> bool \<Rightarrow> world \<Rightarrow> unit outcome \<times> world"
where
  "restore_generation x node make_operational w =
     (let w1 = emit (RepairActiveGeneration make_operational (Some False)) w
      in if active_is_fully_operational_at x (trace w1) then
           (Returns (), log Info ''Active generation is fully operational'' [] w1)
         else
           (case ask_about_generation node w1 of
              (Returns user_opt, w2) \<Rightarrow>
                if user_opt = ''R'' then restore_generation x node make_operational w2
                else if user_opt = ''I'' then (Returns (), w2)
                else if user_opt = ''F'' then
                  exit_with 1 (log Critical ''Active generation not fully operational. Aborting'' [] w2)
                else restore_generation x node make_operational w2
            | (Raises e, w2) \<Rightarrow> (Raises e, w2)
            | (Hangs, w2) \<Rightarrow> (Hangs, w2)))"
  by pat_completeness auto
termination
proof -
  have shrink: "length (stdin w') \<le> length (stdin w) \<and> (u = None \<longrightarrow> length (stdin w') < length (stdin w))"
    if "prompt_until_valid opts fm u w = (Returns a, w')" for opts fm u w a w'
    using that
  proof (induction opts fm u w rule: prompt_until_valid.induct)
    case (1 opts fm user_opt w)
    show ?case
    proof (cases "case user_opt of None \<Rightarrow> None | Some a \<Rightarrow> if a \<in> set opts then Some a else None")
      case (Some b)
      with "1.prems" show ?thesis
        by (auto split: option.splits if_splits)
    next
      case None
      with "1.prems" obtain t where t: "fm = Inr t"
        by (cases fm) auto
      with None "1.prems" obtain b w1 where p: "prompt t w = (Returns b, w1)"
        and rec: "prompt_until_valid opts fm (Some b) w1 = (Returns a, w')"
        by (auto split: prod.splits outcome.splits)
      from p have "length (stdin w1) < length (stdin w)"
        by (auto simp: prompt_def emit_def split: list.splits)
      moreover from "1.IH" [OF None t _ _ rec] p
      have "length (stdin w') \<le> length (stdin w1)"
        by simp
      ultimately show ?thesis by simp
    qed
  qed
  have asked: "length (stdin w2) < length (stdin w)"
    if "(r, w2) = ask_about_generation node
          (emit (RepairActiveGeneration make_operational (Some False)) w)"
      and "r = Returns user_opt"
    for node make_operational w r user_opt w2
  proof -
    from that have "prompt_until_valid opts_IRF
        (py_format (''Active generation not fully operational. '' @ ''Ignore/Retry/Fail (I/R/F)?'')
          (Obj (py_str node)))
        None (emit (RepairActiveGeneration make_operational (Some False)) w) = (Returns user_opt, w2)"
      unfolding ask_about_generation_def by simp
    from shrink [OF this]
    have "length (stdin w2) <
        length (stdin (emit (RepairActiveGeneration make_operational (Some False)) w))"
      by simp
    then show ?thesis by (simp add: emit_def)
  qed
  show ?thesis
    apply (relation "measure (\<lambda>(x, node, make_operational, w). length (stdin w))")
    subgoal by simp
    subgoal for x node make_operational w w1 r w2 user_opt
      using asked [of r w2 node make_operational w user_opt] by simp
    subgoal for x node make_operational w w1 r w2 user_opt
      using asked [of r w2 node make_operational w user_opt] by simp
    done
qed

subsection \<open>The context manager\<close>

text \<open>Lines 345 to 426: what runs after the \<open>yield\<close>.\<close>

definition restore_operation ::
  "externals \<Rightarrow> node option \<Rightarrow> bool \<Rightarrow> world \<Rightarrow> unit outcome \<times> world"
where
  "restore_operation x node make_operational w =
     (if make_operational then
        (let w1 = log Info ''Restoring operation: %s'' [S (py_str node)] w
         in case node of
              Some n \<Rightarrow> restore_node x n 0 w1
            | None \<Rightarrow> restore_generation x node make_operational w1)
      else (Returns (), w))"

text \<open>
  The whole function; \<open>body\<close> is the body of the \<open>with\<close> statement, run at the
  \<open>yield\<close>.
\<close>

definition seamless_modification ::
  "externals \<Rightarrow> node option \<Rightarrow> bool \<Rightarrow> bool \<Rightarrow> (world \<Rightarrow> unit outcome \<times> world) \<Rightarrow>
   world \<Rightarrow> unit outcome \<times> world"
where
  "seamless_modification x node force_seamless make_operational_if_not_already body w =
     and_then (check_redundancy x node force_seamless)
       (\<lambda>_ w1.
          case rotate_out x node make_operational_if_not_already w1 of
            (make_operational, w2) \<Rightarrow>
              and_then body (\<lambda>_. restore_operation x node make_operational) w2)
       w"

section \<open>Seed Verification Gate (up.py, \<open>_prompt_for_seed_verification\<close>)\<close>

definition prompt_for_seed_verification :: "deployer \<Rightarrow> world \<Rightarrow> unit outcome \<times> world" where
  "prompt_for_seed_verification d w =
     (let opts = [''Yes'', ''No''];
          prompt_str = ''Requiring seed data verification. Node %s-%s WILL be affected '' @
                       ''Continue? (%s)?'';
          context = Tuple [py_str (seed_deployment d), py_str (seed_node_name d), join ''/'' opts]
      in and_then (prompt_until_valid opts (py_format prompt_str context) None)
           (\<lambda>user_opt w'.
              if user_opt \<noteq> ''Yes'' then
                exit_with 1
                  (log Critical ''Node %s-%s would be affected. Aborting deployment''
                     [S (py_str (seed_deployment d)), S (py_str (seed_node_name d))] w')
              else (Returns (), w'))
           w)"

section \<open>Rollout Orchestrator (up.py, \<open>up\<close>)\<close>

text \<open>
  Not modelled: the decorators and the \<open>logs_duration\<close> timers (telemetry), and the
  pre-deploy validation block, which is dead code (\<open>git_conf\<close> and \<open>pagerduty_conf\<close> are
  the empty dict, so both of its tests are false).
\<close>

text \<open>
  The \<open>assert\<close> statement, as the interpreter runs it without the option \<open>-O\<close> (which
  removes assertions).
\<close>

definition py_assert :: "bool \<Rightarrow> world \<Rightarrow> unit outcome \<times> world" where
  "py_assert b w = (if b then (Returns (), w) else (Raises AssertionError, w))"

text \<open>\<open>deployment.verify_deployment_state(verify_old=...)\<close>.\<close>

definition verify_deployment_state ::
  "externals \<Rightarrow> string \<Rightarrow> bool option \<Rightarrow> world \<Rightarrow> unit outcome \<times> world"
where
  "verify_deployment_state x name verify_old w =
     external_call (VerifyDeploymentState name verify_old)
       (verify_deployment_state_fails x (trace w) name) w"

text \<open>Lines 121 to 140: the seed deployment, if the environment has one.\<close>

definition gather_seed_deployment ::
  "externals \<Rightarrow> string \<Rightarrow> world \<Rightarrow> string option outcome \<times> world"
where
  "gather_seed_deployment x environment_name w =
     (case get_seed_environment_name x environment_name of
        None \<Rightarrow> (Returns None, w)
      | Some seed_deployment_name \<Rightarrow>
          if seed_deployment_name = [] then (Returns None, w)
          else
            and_then (verify_deployment_state x seed_deployment_name (Some False))
              (\<lambda>_ w'. (Returns (Some seed_deployment_name), w'))
              (log Info ''Verifying seed deployment state'' [] w))"

text \<open>
  Lines 163 to 170: \<open>seed_node_name\<close> and \<open>verify_seed_data\<close> of one node. A missing
  key of a subscription \<open>d[key]\<close> raises \<open>KeyError\<close>.
\<close>

definition seed_settings ::
  "string option \<Rightarrow> node_conf \<Rightarrow> world \<Rightarrow> (string option \<times> bool) outcome \<times> world"
where
  "seed_settings seed_deployment' conf' w =
     (case seed_deployment' of
        None \<Rightarrow> (Returns (None, False), log Info ''No seed node configured'' [] w)
      | Some _ \<Rightarrow>
          (case seed conf' of
             None \<Rightarrow> (Returns (None, False), log Info ''No seed node configured'' [] w)
           | Some seed_dict \<Rightarrow>
               (case map_of seed_dict ''unique_id'' of
                  None \<Rightarrow> (Raises (KeyError ''unique_id''), w)
                | Some unique_id \<Rightarrow>
                    (case seed_node conf' of
                       None \<Rightarrow> (Raises (KeyError ''seed_node''), w)
                     | Some seed_node_dict \<Rightarrow>
                         (Returns
                            (Some unique_id,
                             case map_of seed_node_dict ''verify'' of
                               None \<Rightarrow> False
                             | Some verify \<Rightarrow> verify),
                          w)))))"

text \<open>
  Lines 172 to 187: the class is chosen by \<open>aws_type\<close> and the deployer constructed.
  \<open>is_active\<close> is \<open>env._active_gen\<close>, which \<open>up\<close> has set to \<open>True\<close>.
\<close>

definition build_deployer ::
  "string \<Rightarrow> string option \<Rightarrow> string \<Rightarrow> string \<Rightarrow> node_conf \<Rightarrow> world \<Rightarrow> deployer outcome \<times> world"
where
  "build_deployer deployment' seed_deployment' aws_type' node_name' conf' w =
     and_then (seed_settings seed_deployment' conf')
       (\<lambda>(seed_node_name', verify_seed_data) w'.
          case (if aws_type' = ''ec2'' then Some Ec2NodeDeployment
                else if aws_type' = ''rds'' then Some RdsNodeDeployment
                else None) of
            None \<Rightarrow> (Raises (NameError ''klass''), w')
          | Some klass' \<Rightarrow>
              (Returns
                 \<lparr>klass = klass',
                  deployment = deployment',
                  seed_deployment = seed_deployment',
                  is_active = True,
                  aws_type = aws_type',
                  node_name = node_name',
                  seed_node_name = seed_node_name',
                  seed_verification = verify_seed_data,
                  brain_wrinkles_arg = (case brain_wrinkles conf' of None \<Rightarrow> [] | Some b \<Rightarrow> b),
                  conf = conf'\<rparr>,
               w'))
       w"

text \<open>
  The inner loop \<open>for node_name, conf in node_confs.items()\<close>, with the two lists
  \<open>ec2_deployers\<close> and \<open>rds_deployers\<close> as its state (lines 161 to 192).
\<close>

fun build_nodes ::
  "string \<Rightarrow> string option \<Rightarrow> string \<Rightarrow> (string \<times> node_conf) list \<Rightarrow>
   deployer list \<times> deployer list \<Rightarrow> world \<Rightarrow> (deployer list \<times> deployer list) outcome \<times> world"
where
  "build_nodes deployment' seed_deployment' aws_type' [] both w = (Returns both, w)"
| "build_nodes deployment' seed_deployment' aws_type' ((node_name', conf') # rest)
     (ec2_deployers, rds_deployers) w =
     (case build_deployer deployment' seed_deployment' aws_type' node_name' conf' w of
        (Returns d, w') \<Rightarrow>
          build_nodes deployment' seed_deployment' aws_type' rest
            (if aws_type' = ''ec2'' then (ec2_deployers @ [d], rds_deployers)
             else if aws_type' = ''rds'' then (ec2_deployers, rds_deployers @ [d])
             else (ec2_deployers, rds_deployers))
            w'
      | (Raises e, w') \<Rightarrow> (Raises e, w')
      | (Hangs, w') \<Rightarrow> (Hangs, w'))"

text \<open>The outer loop \<open>for aws_type, node_confs in dep_confs\<close> (line 160).\<close>

fun build_sections ::
  "string \<Rightarrow> string option \<Rightarrow> (string \<times> (string \<times> node_conf) list) list \<Rightarrow>
   deployer list \<times> deployer list \<Rightarrow> world \<Rightarrow> (deployer list \<times> deployer list) outcome \<times> world"
where
  "build_sections deployment' seed_deployment' [] both w = (Returns both, w)"
| "build_sections deployment' seed_deployment' ((aws_type', node_confs) # rest) both w =
     (case build_nodes deployment' seed_deployment' aws_type' node_confs both w of
        (Returns both', w') \<Rightarrow> build_sections deployment' seed_deployment' rest both' w'
      | (Raises e, w') \<Rightarrow> (Raises e, w')
      | (Hangs, w') \<Rightarrow> (Hangs, w'))"

text \<open>
  Lines 145 to 192. \<open>dep_confs\<close> is written as in the source: the entry \<open>'rds'\<close> holds
  the section \<open>'ec2'\<close> of the configuration and the entry \<open>'ec2'\<close> the section \<open>'rds'\<close>.
  The result is the pair (\<open>ec2_deployers\<close>, \<open>rds_deployers\<close>).
\<close>

definition build_deployers ::
  "string \<Rightarrow> string option \<Rightarrow> environment_config \<Rightarrow> world \<Rightarrow>
   (deployer list \<times> deployer list) outcome \<times> world"
where
  "build_deployers deployment' seed_deployment' environment_config w =
     (let dep_confs =
            [(''rds'', get_section environment_config ''ec2''),
             (''ec2'', get_section environment_config ''rds'')]
      in build_sections deployment' seed_deployment' dep_confs ([], []) w)"

subsection \<open>After the assertion: provisioning and deployment (lines 197 to 249)\<close>

definition ensure_node_created :: "externals \<Rightarrow> deployer \<Rightarrow> world \<Rightarrow> unit outcome \<times> world" where
  "ensure_node_created x d w =
     external_call (EnsureNodeCreated d) (ensure_node_created_fails x (trace w) d) w"

definition run :: "externals \<Rightarrow> deployer \<Rightarrow> world \<Rightarrow> unit outcome \<times> world" where
  "run x d w = external_call (Run d) (run_fails x (trace w) d) w"

text \<open>
  The body of the two provisioning loops (lines 201 to 204 and 209 to 212, the same
  text): the Seed Verification Gate for a deployer with \<open>seed_verification\<close> whose node
  does not exist, then \<open>ensure_node_created()\<close>.
\<close>

definition provision_node :: "externals \<Rightarrow> deployer \<Rightarrow> world \<Rightarrow> unit outcome \<times> world" where
  "provision_node x d w =
     and_then
       (\<lambda>w0. if seed_verification d \<and> get_node_at x (trace w0) d = None
              then prompt_for_seed_verification d w0
              else (Returns (), w0))
       (\<lambda>_. ensure_node_created x d)
       w"

fun provision_nodes :: "externals \<Rightarrow> deployer list \<Rightarrow> world \<Rightarrow> unit outcome \<times> world" where
  "provision_nodes x [] w = (Returns (), w)"
| "provision_nodes x (d # rest) w =
     (case provision_node x d w of
        (Returns _, w') \<Rightarrow> provision_nodes x rest w'
      | (Raises e, w') \<Rightarrow> (Raises e, w')
      | (Hangs, w') \<Rightarrow> (Hangs, w'))"

text \<open>Lines 217 and 218: \<open>run()\<close> on every RDS deployer.\<close>

fun run_all :: "externals \<Rightarrow> deployer list \<Rightarrow> world \<Rightarrow> unit outcome \<times> world" where
  "run_all x [] w = (Returns (), w)"
| "run_all x (d # rest) w =
     (case run x d w of
        (Returns _, w') \<Rightarrow> run_all x rest w'
      | (Raises e, w') \<Rightarrow> (Raises e, w')
      | (Hangs, w') \<Rightarrow> (Hangs, w'))"

text \<open>
  Lines 226 to 247, the body of the EC2 loop. \<open>make_operational\<close> is bound only when
  \<open>generation == ACTIVE\<close>; reading it unbound raises \<open>NameError\<close>.
\<close>

definition deploy_ec2 ::
  "externals \<Rightarrow> bool option \<Rightarrow> deployer \<Rightarrow> world \<Rightarrow> unit outcome \<times> world"
where
  "deploy_ec2 x make_operational d w =
     (let node = get_node_at x (trace w) d
      in case make_operational of
           None \<Rightarrow> (Raises (NameError ''make_operational''), w)
         | Some flag \<Rightarrow>
             and_then (seamless_modification x node True flag (run x d))
               (\<lambda>_ w'. if DT_NOTIFY x then (Returns (), emit (Notify d) w') else (Returns (), w'))
               w)"

fun deploy_all ::
  "externals \<Rightarrow> bool option \<Rightarrow> deployer list \<Rightarrow> world \<Rightarrow> unit outcome \<times> world"
where
  "deploy_all x make_operational [] w = (Returns (), w)"
| "deploy_all x make_operational (d # rest) w =
     (case deploy_ec2 x make_operational d w of
        (Returns _, w') \<Rightarrow> deploy_all x make_operational rest w'
      | (Raises e, w') \<Rightarrow> (Raises e, w')
      | (Hangs, w') \<Rightarrow> (Hangs, w'))"

text \<open>The call of the scheduler (line 221), on the nodes as they are at that moment.\<close>

definition order_deployers ::
  "externals \<Rightarrow> deployer list \<Rightarrow> world \<Rightarrow> deployer list outcome \<times> world"
where
  "order_deployers x ec2_deployers w =
     (case order_ec2_deployers_by_priority (get_node_at x (trace w)) (is_operational_at x (trace w))
             (is_healthy_at x (trace w)) ec2_deployers of
        Inl e \<Rightarrow> (Raises e, w)
      | Inr ordered \<Rightarrow> (Returns ordered, w))"

text \<open>Everything that follows \<open>assert False\<close> in \<open>up\<close>.\<close>

definition rollout ::
  "externals \<Rightarrow> bool option \<Rightarrow> deployer list \<Rightarrow> deployer list \<Rightarrow> world \<Rightarrow> unit outcome \<times> world"
where
  "rollout x make_operational ec2_deployers rds_deployers w =
     and_then (provision_nodes x rds_deployers)
       (\<lambda>_ w1.
          and_then (provision_nodes x ec2_deployers)
            (\<lambda>_ w2.
               and_then (run_all x rds_deployers)
                 (\<lambda>_ w3.
                    and_then (order_deployers x ec2_deployers)
                      (\<lambda>ordered w4.
                         and_then (deploy_all x make_operational ordered)
                           (\<lambda>_ w5. (Returns (), emit Announce w5))
                           (log Info ''Deploying to EC2 nodes'' [] w4))
                      (log Info ''Determining EC2 node deploy priority'' [] w3))
                 (log Info ''Configuring RDS nodes'' [] w2))
            (log Info ''Provisioning EC2 nodes'' [] w1))
       (log Info ''Provisioning RDS nodes'' [] w)"

subsection \<open>The action\<close>

text \<open>
  The parameters \<open>configuration_manager\<close> (its two methods are in \<open>externals\<close>) and
  \<open>resource_tracker\<close> (never used) are left out. A \<open>Deployment\<close> is its name.
\<close>

definition up :: "externals \<Rightarrow> string \<Rightarrow> string \<Rightarrow> world \<Rightarrow> unit outcome \<times> world" where
  "up x environment_name generation w =
     (let make_operational = (if generation = ACTIVE x then Some True else None);
          environment_config = get_environment_config x environment_name;
          deployment' = environment_name
      in and_then (verify_deployment_state x deployment' (Some False))
           (\<lambda>_ w1.
              and_then (gather_seed_deployment x environment_name)
                (\<lambda>seed_deployment' w2.
                   and_then (build_deployers deployment' seed_deployment' environment_config)
                     (\<lambda>(ec2_deployers, rds_deployers) w3.
                        and_then (py_assert False)
                          (\<lambda>_. rollout x make_operational ec2_deployers rds_deployers)
                          w3)
                     (log Info ''Building Node deployers'' [] w2))
                (log Info ''Gathering seed deployment state'' [] w1))
           (log Info ''Gathering deployment state'' [] w))"

section \<open>Repair Orchestrator (repair.py, \<open>repair\<close>)\<close>

text \<open>
  repair.py holds the function alone, with no import statement: \<open>require\<close> and \<open>env\<close>
  are taken to be Fabric's, \<open>Deployment\<close> and \<open>logger\<close> to be what up.py binds under
  these names.

  Fabric's shared \<open>env\<close>: the three attributes the action reads, each absent or set.
\<close>

record fabric_env =
  deployment_name :: "string option"
  deployment_confs :: "environment_config option"
  active_gen :: "bool option"

text \<open>
  \<open>require(key)\<close> of Fabric aborts the run (\<open>SystemExit(1)\<close>) when the key is not in
  \<open>env\<close>, and also when its value is an empty dict, list, tuple or set. The argument
  is the value of the key (\<open>None\<close> when the key is absent) and whether a value is
  such an empty container.
\<close>

definition require :: "'a option \<Rightarrow> ('a \<Rightarrow> bool) \<Rightarrow> world \<Rightarrow> unit outcome \<times> world" where
  "require val empty_container w =
     (case val of
        None \<Rightarrow> exit_with 1 w
      | Some v \<Rightarrow> if empty_container v then exit_with 1 w else (Returns (), w))"

text \<open>\<open>d[key]\<close> for each of the keys in turn: the first missing key raises.\<close>

fun subscript_all :: "environment_config \<Rightarrow> string list \<Rightarrow> world \<Rightarrow> unit outcome \<times> world" where
  "subscript_all d [] w = (Returns (), w)"
| "subscript_all d (key # keys) w =
     (case map_of d key of
        None \<Rightarrow> (Raises (KeyError key), w)
      | Some _ \<Rightarrow> subscript_all d keys w)"

text \<open>
  The action. The decorators are not modelled. After the three \<open>require\<close> calls the
  attributes are in \<open>env\<close>; the last case of the model (an attribute missing) is the
  \<open>AttributeError\<close> Python would raise there and cannot be reached.
\<close>

definition repair :: "externals \<Rightarrow> fabric_env \<Rightarrow> string \<Rightarrow> world \<Rightarrow> unit outcome \<times> world" where
  "repair x env force w =
     and_then (require (deployment_name env) (\<lambda>name. False))
       (\<lambda>_. and_then (require (deployment_confs env) (\<lambda>confs. confs = []))
          (\<lambda>_. and_then (require (active_gen env) (\<lambda>flag. False))
             (\<lambda>_. and_then (py_assert (active_gen env = Some True))
                (\<lambda>_ w1.
                   case (deployment_name env, deployment_confs env) of
                     (Some name, Some confs) \<Rightarrow>
                       and_then (subscript_all confs [''ec2'', ''rds'', ''elb''])
                         (\<lambda>_. and_then (verify_deployment_state x name None)
                            (\<lambda>_ w2.
                               let force' = (force = ''y'');
                                   activated_nodes =
                                     repair_active_generation_at x (trace w2) force' None;
                                   w3 = emit (RepairActiveGeneration force' None) w2
                               in if length activated_nodes \<noteq> 0 then
                                    (Returns (),
                                     log Info ''Succesfully made %s node(s) operational''
                                       [N (length activated_nodes)] w3)
                                  else (Returns (), log Info ''No nodes modified'' [] w3)))
                         w1
                   | _ \<Rightarrow> (Raises (AttributeError ''env''), w1)))))
       w"

section \<open>Observations on traces, and a concrete fleet\<close>

fun is_prompt :: "event \<Rightarrow> bool" where
  "is_prompt (Prompt t) = True"
| "is_prompt _ = False"

fun is_attempt :: "event \<Rightarrow> bool" where
  "is_attempt (MakeOperational n) = True"
| "is_attempt _ = False"

fun is_sleep :: "event \<Rightarrow> bool" where
  "is_sleep (Sleep s) = True"
| "is_sleep _ = False"

text \<open>
  For each prompt of a trace, in order, the number of events of one kind since the
  prompt before it (or since the start); \<open>k\<close> counts the events seen since then.
\<close>

fun per_prompt :: "(event \<Rightarrow> bool) \<Rightarrow> nat \<Rightarrow> event list \<Rightarrow> nat list" where
  "per_prompt p k [] = []"
| "per_prompt p k (e # es) =
     (if is_prompt e then k # per_prompt p 0 es
      else per_prompt p (if p e then Suc k else k) es)"

text \<open>The events a run adds to the trace it started with.\<close>

definition events_since :: "world \<Rightarrow> world \<Rightarrow> event list" where
  "events_since w w' = drop (length (trace w)) (trace w')"

text \<open>
  Events that touch no node and no deployer and ask the operator nothing: log records
  and \<open>verify_deployment_state\<close>.
\<close>

fun is_passive :: "event \<Rightarrow> bool" where
  "is_passive (Log lvl fmt args) = True"
| "is_passive (VerifyDeploymentState name verify_old) = True"
| "is_passive _ = False"

text \<open>
  The second state continues the first with passive events only: the trace of the first
  is a prefix of the trace of the second, the events added are passive, and no line of
  the operator was read.
\<close>

definition passive_extension :: "world \<Rightarrow> world \<Rightarrow> bool" where
  "passive_extension w w' =
     (stdin w' = stdin w \<and> take (length (trace w)) (trace w') = trace w \<and>
      list_all is_passive (events_since w w'))"

text \<open>
  A node configuration on which lines 163 to 170 raise no \<open>KeyError\<close>: when it has the
  key \<open>'seed'\<close>, that dict has \<open>'unique_id'\<close> and the configuration has \<open>'seed_node'\<close>.
\<close>

definition seed_keys_complete :: "node_conf \<Rightarrow> bool" where
  "seed_keys_complete c =
     (case seed c of
        None \<Rightarrow> True
      | Some seed_dict \<Rightarrow> map_of seed_dict ''unique_id'' \<noteq> None \<and> seed_node c \<noteq> None)"

text \<open>The text of the prompt of the single-node convergence loop for a node.\<close>

definition node_prompt_text :: "node \<Rightarrow> string" where
  "node_prompt_text n = ''Node '' @ n @ '' not made operational. Ignore/Retry/Fail (I/R/F)?''"

text \<open>The text of the prompt of the Seed Verification Gate for a deployer.\<close>

definition seed_prompt_text :: "deployer \<Rightarrow> string" where
  "seed_prompt_text d =
     ''Requiring seed data verification. Node '' @ py_str (seed_deployment d) @ ''-'' @
     py_str (seed_node_name d) @ '' WILL be affected Continue? (Yes/No)?''"

text \<open>
  A fleet for concrete runs: an unattended run (\<open>interactive\<close> false) on an environment
  with no configuration, where no node exists, nothing is ever operational, healthy or
  redundant, no call fails and repairs activate nothing.
\<close>

definition idle_fleet :: externals where
  "idle_fleet =
     \<lparr>get_environment_config = (\<lambda>name. []),
      get_seed_environment_name = (\<lambda>name. None),
      verify_deployment_state_fails = (\<lambda>t name. None),
      get_node_at = (\<lambda>t d. None),
      ensure_node_created_fails = (\<lambda>t d. None),
      run_fails = (\<lambda>t d. None),
      is_operational_at = (\<lambda>t n. False),
      is_healthy_at = (\<lambda>t n. False),
      has_required_redundancy_at = (\<lambda>t n. False),
      make_operational_fails = (\<lambda>t n. False),
      get_health_check_url = (\<lambda>n. ''http://'' @ n @ ''/health''),
      repair_active_generation_at = (\<lambda>t force wait. []),
      active_is_fully_operational_at = (\<lambda>t. False),
      env_interactive = Some False,
      ACTIVE = ''active'',
      DT_NOTIFY = False\<rparr>"

text \<open>A deployer of a seed-linked RDS node with \<open>seed_verification\<close> set.\<close>

definition seeded_deployer :: deployer where
  "seeded_deployer =
     \<lparr>klass = RdsNodeDeployment,
      deployment = ''prod'',
      seed_deployment = Some ''staging'',
      is_active = True,
      aws_type = ''rds'',
      node_name = ''db0'',
      seed_node_name = Some ''db-seed'',
      seed_verification = True,
      brain_wrinkles_arg = [],
      conf = \<lparr>seed = Some [(''unique_id'', ''db-seed'')], seed_node = Some [(''verify'', True)],
              brain_wrinkles = None\<rparr>\<rparr>"

definition plain_conf :: node_conf where
  "plain_conf = \<lparr>seed = None, seed_node = None, brain_wrinkles = None\<rparr>"

text \<open>A deployer of a plain EC2 node, and a configuration from which \<open>up\<close> builds
  the seed-linked deployer above.\<close>

definition plain_deployer :: deployer where
  "plain_deployer =
     \<lparr>klass = Ec2NodeDeployment,
      deployment = ''prod'',
      seed_deployment = None,
      is_active = True,
      aws_type = ''ec2'',
      node_name = ''web0'',
      seed_node_name = None,
      seed_verification = False,
      brain_wrinkles_arg = [],
      conf = plain_conf\<rparr>"

definition seeded_config :: environment_config where
  "seeded_config = [(''ec2'', [(''db0'', conf seeded_deployer)])]"

text \<open>Two configurations for concrete runs of \<open>up\<close>.\<close>

definition two_node_config :: environment_config where
  "two_node_config = [(''ec2'', [(''web0'', plain_conf)]), (''rds'', [(''db0'', plain_conf)])]"

definition half_seeded_conf :: node_conf where
  "half_seeded_conf =
     \<lparr>seed = Some [(''unique_id'', ''web-seed'')], seed_node = None, brain_wrinkles = None\<rparr>"

text \<open>Fabric's \<open>env\<close> as a \<open>repair\<close> run finds it.\<close>

definition prod_env :: fabric_env where
  "prod_env =
     \<lparr>deployment_name = Some ''prod'',
      deployment_confs = Some [(''ec2'', []), (''rds'', []), (''elb'', [])],
      active_gen = Some True\<rparr>"

definition fresh :: "string list \<Rightarrow> world" where
  "fresh answers = \<lparr>trace = [], stdin = answers\<rparr>"

text \<open>The recursive equations are used by name, not by the simplifier on its own.\<close>

declare prompt_until_valid.simps [simp del]
declare restore_node.simps [simp del]
declare restore_generation.simps [simp del]

section \<open>Properties of the scheduler\<close>

lemma classify_deployers_buckets:
  assumes "\<forall>d \<in> set ds. get_node d \<noteq> None"
  shows "\<exists>b'. classify_deployers get_node is_operational is_healthy ds b = Inr b' \<and>
    io_unhealthy b' = io_unhealthy b @
      filter (\<lambda>d. bucket_of get_node is_operational is_healthy d = Some InoperativeUnhealthy) ds \<and>
    io_healthy b' = io_healthy b @
      filter (\<lambda>d. bucket_of get_node is_operational is_healthy d = Some InoperativeHealthy) ds \<and>
    o_unhealthy b' = o_unhealthy b @
      filter (\<lambda>d. bucket_of get_node is_operational is_healthy d = Some OperationalUnhealthy) ds \<and>
    o_healthy b' = o_healthy b @
      filter (\<lambda>d. bucket_of get_node is_operational is_healthy d = Some OperationalHealthy) ds"
  using assms
proof (induction ds arbitrary: b)
  case Nil
  then show ?case by simp
next
  case (Cons d ds)
  from Cons.prems obtain node where node: "get_node d = Some node" by auto
  from Cons.prems have rest: "\<forall>d \<in> set ds. get_node d \<noteq> None" by simp
  show ?case
  proof (cases "is_operational node")
    case True
    show ?thesis
    proof (cases "is_healthy node")
      case True
      with \<open>is_operational node\<close> node
        Cons.IH [OF rest, of "b\<lparr>o_healthy := o_healthy b @ [d]\<rparr>"]
      show ?thesis by (simp add: bucket_of_def)
    next
      case False
      with \<open>is_operational node\<close> node
        Cons.IH [OF rest, of "b\<lparr>o_unhealthy := o_unhealthy b @ [d]\<rparr>"]
      show ?thesis by (simp add: bucket_of_def)
    qed
  next
    case False
    show ?thesis
    proof (cases "is_healthy node")
      case True
      with \<open>\<not> is_operational node\<close> node
        Cons.IH [OF rest, of "b\<lparr>io_healthy := io_healthy b @ [d]\<rparr>"]
      show ?thesis by (simp add: bucket_of_def)
    next
      case False
      with \<open>\<not> is_operational node\<close> node
        Cons.IH [OF rest, of "b\<lparr>io_unhealthy := io_unhealthy b @ [d]\<rparr>"]
      show ?thesis by (simp add: bucket_of_def)
    qed
  qed
qed

text \<open>
  What the function returns when every deployer has a node: the four buckets, each in
  input order, concatenated in the order of the \<open>return\<close> statement.
\<close>

lemma order_ec2_deployers_by_priority_eq:
  assumes "\<forall>d \<in> set ds. get_node d \<noteq> None"
  shows "order_ec2_deployers_by_priority get_node is_operational is_healthy ds =
    Inr (filter (\<lambda>d. bucket_of get_node is_operational is_healthy d = Some InoperativeHealthy) ds @
         filter (\<lambda>d. bucket_of get_node is_operational is_healthy d = Some InoperativeUnhealthy) ds @
         filter (\<lambda>d. bucket_of get_node is_operational is_healthy d = Some OperationalUnhealthy) ds @
         filter (\<lambda>d. bucket_of get_node is_operational is_healthy d = Some OperationalHealthy) ds)"
proof -
  from classify_deployers_buckets [OF assms, of is_operational is_healthy no_buckets]
  obtain b' where
    "classify_deployers get_node is_operational is_healthy ds no_buckets = Inr b'"
    "io_unhealthy b' =
      filter (\<lambda>d. bucket_of get_node is_operational is_healthy d = Some InoperativeUnhealthy) ds"
    "io_healthy b' =
      filter (\<lambda>d. bucket_of get_node is_operational is_healthy d = Some InoperativeHealthy) ds"
    "o_unhealthy b' =
      filter (\<lambda>d. bucket_of get_node is_operational is_healthy d = Some OperationalUnhealthy) ds"
    "o_healthy b' =
      filter (\<lambda>d. bucket_of get_node is_operational is_healthy d = Some OperationalHealthy) ds"
    by (auto simp: no_buckets_def)
  then show ?thesis by (simp add: order_ec2_deployers_by_priority_def)
qed

lemma bucket_cases:
  assumes "get_node d \<noteq> None"
  shows "bucket_of get_node is_operational is_healthy d \<in>
    {Some InoperativeHealthy, Some InoperativeUnhealthy, Some OperationalUnhealthy, Some OperationalHealthy}"
proof -
  from assms obtain node where "get_node d = Some node" by auto
  then show ?thesis by (simp add: bucket_of_def)
qed

lemma mset_four_buckets:
  assumes "\<forall>d \<in> set ds. f d \<in> {a, b, c, e}" and "distinct [a, b, c, e]"
  shows "mset (filter (\<lambda>d. f d = a) ds @ filter (\<lambda>d. f d = b) ds @
               filter (\<lambda>d. f d = c) ds @ filter (\<lambda>d. f d = e) ds) = mset ds"
  using assms by (induction ds) auto

lemma filter_four_buckets:
  assumes "\<forall>d \<in> set ds. f d \<in> {a, b, c, e}" and "distinct [a, b, c, e]"
  shows "filter (\<lambda>d. f d = k) (filter (\<lambda>d. f d = a) ds @ filter (\<lambda>d. f d = b) ds @
               filter (\<lambda>d. f d = c) ds @ filter (\<lambda>d. f d = e) ds) = filter (\<lambda>d. f d = k) ds"
  using assms by (induction ds) auto

text \<open>
  A batch with a deployer whose \<open>get_node()\<close> returns \<open>None\<close> makes the function raise:
  it returns no list.
\<close>

lemma classify_deployers_absent_node:
  assumes "d \<in> set ds" and "get_node d = None"
  shows "classify_deployers get_node is_operational is_healthy ds b =
    Inl (AttributeError ''is_operational'')"
  using assms
proof (induction ds arbitrary: b)
  case Nil
  then show ?case by simp
next
  case (Cons a ds)
  show ?case
  proof (cases "get_node a")
    case None
    then show ?thesis by simp
  next
    case (Some node)
    with Cons.prems have "d \<in> set ds" by auto
    with Cons.IH Cons.prems(2) Some show ?thesis by simp
  qed
qed

lemma order_ec2_deployers_by_priority_absent_node:
  assumes "d \<in> set ds" and "get_node d = None"
  shows "order_ec2_deployers_by_priority get_node is_operational is_healthy ds =
    Inl (AttributeError ''is_operational'')"
  using assms by (simp add: order_ec2_deployers_by_priority_def classify_deployers_absent_node)

text \<open>
  C1. Claim: the scheduler returns the deployers in the order inoperative-unhealthy,
  inoperative-healthy, operational-unhealthy, operational-healthy. The docstring of the
  function documents this order, and the \<open>return\<close> statement concatenates
  \<open>io_healthy\<close> before \<open>io_unhealthy\<close>. On the batch of \<open>a\<close> (inoperative, unhealthy)
  and \<open>b\<close> (inoperative, healthy), the function returns \<open>b\<close> before \<open>a\<close>: the output
  is not in the documented order.
\<close>

theorem scheduler_returns_inoperative_healthy_first:
  "order_ec2_deployers_by_priority Some (\<lambda>n. False) (\<lambda>n. n = ''b'') [''a'', ''b''] =
     Inr [''b'', ''a''] \<and>
   bucket_of Some (\<lambda>n. False) (\<lambda>n. n = ''b'') ''a'' = Some InoperativeUnhealthy \<and>
   bucket_of Some (\<lambda>n. False) (\<lambda>n. n = ''b'') ''b'' = Some InoperativeHealthy \<and>
   \<not> sorted (map (\<lambda>d. documented_rank (bucket_of Some (\<lambda>n. False) (\<lambda>n. n = ''b'') d))
                 [''b'', ''a''])"
  by (simp add: order_ec2_deployers_by_priority_def no_buckets_def bucket_of_def)

text \<open>
  C8, as stated, fails on a batch with a deployer whose \<open>get_node()\<close> returns \<open>None\<close>:
  the function reads \<open>node.is_operational\<close> of \<open>None\<close> and raises, so it returns no
  list at all.
\<close>

theorem scheduler_absent_node_counterexample:
  "order_ec2_deployers_by_priority (\<lambda>d. None :: string option) (\<lambda>n. True) (\<lambda>n. True) [''a''] =
     Inl (AttributeError ''is_operational'')"
  by (simp add: order_ec2_deployers_by_priority_def)

text \<open>
  C8, amended. For every batch in which every deployer has a node (\<open>get_node()\<close> is not
  \<open>None\<close>), the scheduler returns a list that is a permutation of the batch (the same
  multiset of deployers), and for every bucket the deployers of that bucket stand in the
  output in their input order (stability). The function has no effect: it is a function
  of its arguments alone, and its call in \<open>up\<close> leaves the state of the run as it was.
\<close>

theorem scheduler_stable_permutation:
  assumes "\<forall>d \<in> set ds. get_node d \<noteq> None"
  shows "\<exists>ys. order_ec2_deployers_by_priority get_node is_operational is_healthy ds = Inr ys \<and>
           mset ys = mset ds \<and>
           (\<forall>k. filter (\<lambda>d. bucket_of get_node is_operational is_healthy d = k) ys =
                filter (\<lambda>d. bucket_of get_node is_operational is_healthy d = k) ds) \<and>
           snd (order_deployers x ec2_deployers w) = w"
proof -
  let ?f = "bucket_of get_node is_operational is_healthy"
  let ?ys = "filter (\<lambda>d. ?f d = Some InoperativeHealthy) ds @
             filter (\<lambda>d. ?f d = Some InoperativeUnhealthy) ds @
             filter (\<lambda>d. ?f d = Some OperationalUnhealthy) ds @
             filter (\<lambda>d. ?f d = Some OperationalHealthy) ds"
  have four: "\<forall>d \<in> set ds. ?f d \<in> {Some InoperativeHealthy, Some InoperativeUnhealthy,
      Some OperationalUnhealthy, Some OperationalHealthy}"
    using assms bucket_cases [of get_node _ is_operational is_healthy] by blast
  have dist: "distinct [Some InoperativeHealthy, Some InoperativeUnhealthy,
      Some OperationalUnhealthy, Some OperationalHealthy]"
    by simp
  have "order_ec2_deployers_by_priority get_node is_operational is_healthy ds = Inr ?ys"
    by (rule order_ec2_deployers_by_priority_eq [OF assms])
  moreover have "mset ?ys = mset ds"
    by (rule mset_four_buckets [OF four dist])
  moreover have "filter (\<lambda>d. ?f d = k) ?ys = filter (\<lambda>d. ?f d = k) ds" for k
    by (rule filter_four_buckets [OF four dist])
  moreover have "snd (order_deployers x ec2_deployers w) = w"
    by (simp add: order_deployers_def split: sum.splits)
  ultimately show ?thesis by blast
qed

theorem scheduler_stable_permutation_witness:
  "\<exists>ys. order_ec2_deployers_by_priority Some (\<lambda>n. n = ''c'' \<or> n = ''d'') (\<lambda>n. n = ''b'' \<or> n = ''d'')
           [''d'', ''a'', ''c'', ''b'', ''a''] = Inr ys \<and>
         mset ys = mset [''d'', ''a'', ''c'', ''b'', ''a''] \<and>
         (\<forall>k. filter (\<lambda>d. bucket_of Some (\<lambda>n. n = ''c'' \<or> n = ''d'') (\<lambda>n. n = ''b'' \<or> n = ''d'') d = k) ys =
              filter (\<lambda>d. bucket_of Some (\<lambda>n. n = ''c'' \<or> n = ''d'') (\<lambda>n. n = ''b'' \<or> n = ''d'') d = k)
                [''d'', ''a'', ''c'', ''b'', ''a''])"
proof -
  have nodes: "\<forall>d \<in> set [''d'', ''a'', ''c'', ''b'', ''a'']. Some d \<noteq> None"
    by simp
  from scheduler_stable_permutation [OF nodes, of "\<lambda>n. n = ''c'' \<or> n = ''d''"
      "\<lambda>n. n = ''b'' \<or> n = ''d''"]
  show ?thesis by blast
qed

section \<open>Properties of the rotation protocol and the convergence loop\<close>

lemma format_node_prompt:
  "py_format ''Node %s not made operational. Ignore/Retry/Fail (I/R/F)?'' (Obj n) =
     Inr (''Node '' @ n @ '' not made operational. Ignore/Retry/Fail (I/R/F)?'')"
  by (simp add: py_format_def)

lemma format_generation_prompt:
  "py_format ''Active generation not fully operational. Ignore/Retry/Fail (I/R/F)?'' (Obj s) =
     Inl (TypeError ''not all arguments converted during string formatting'')"
  by (simp add: py_format_def)

lemma prompt_until_valid_accepts:
  assumes "stdin w = a # rest" and "a \<in> set opts"
  shows "prompt_until_valid opts (Inr t) None w =
    (Returns a, w\<lparr>trace := trace w @ [Prompt t], stdin := rest\<rparr>)"
  using assms
  by (simp add: prompt_until_valid.simps [of opts "Inr t" None]
      prompt_until_valid.simps [of opts "Inr t" "Some a"] prompt_def emit_def)

lemma prompt_until_valid_rejects:
  assumes "stdin w = a # rest" and "a \<notin> set opts"
  shows "prompt_until_valid opts (Inr t) None w =
    prompt_until_valid opts (Inr t) None (w\<lparr>trace := trace w @ [Prompt t], stdin := rest\<rparr>)"
  using assms
  by (simp add: prompt_until_valid.simps [of opts "Inr t" None w]
      prompt_until_valid.simps [of opts "Inr t" "Some a"]
      prompt_until_valid.simps [of opts "Inr t" None "w\<lparr>trace := trace w @ [Prompt t], stdin := rest\<rparr>"] prompt_def emit_def)

lemma prompt_until_valid_format_error:
  "prompt_until_valid opts (Inl e) None w = (Raises e, w)"
  by (simp add: prompt_until_valid.simps)

lemma per_prompt_append:
  assumes "filter is_prompt es = []"
  shows "per_prompt p k (es @ es') = per_prompt p (k + length (filter p es)) es'"
  using assms by (induction es arbitrary: k) (auto split: if_splits)

lemma attempt_never_operational:
  assumes "\<forall>t. \<not> is_operational_at x t n"
  shows "\<exists>es. attempt_make_operational x n w = (False, w\<lparr>trace := trace w @ es\<rparr>) \<and>
    length (filter is_attempt es) = 1 \<and> length (filter is_sleep es) = 1 \<and>
    filter is_prompt es = []"
proof (cases "make_operational_fails x (trace w) n")
  case True
  with assms have "attempt_make_operational x n w =
    (False, w\<lparr>trace := trace w @ [MakeOperational n,
       Log Warning ''Failed to make node %s operational'' [S n],
       Log Info ''Waiting 1s for node to become operational'' [], Sleep 1]\<rparr>)"
    by (simp add: attempt_make_operational_def Let_def emit_def log_def)
  then show ?thesis by force
next
  case False
  with assms have "attempt_make_operational x n w =
    (False, w\<lparr>trace := trace w @ [MakeOperational n,
       Log Info ''Waiting 1s for node to become operational'' [], Sleep 1]\<rparr>)"
    by (simp add: attempt_make_operational_def Let_def emit_def log_def)
  then show ?thesis by force
qed

lemma restore_node_automatic_phase:
  assumes never: "\<forall>t. \<not> is_operational_at x t n"
  shows "count' \<le> auto_retries \<Longrightarrow>
    \<exists>es. restore_node x n count' w = restore_node x n auto_retries (w\<lparr>trace := trace w @ es\<rparr>) \<and>
      length (filter is_attempt es) = auto_retries - count' \<and>
      length (filter is_sleep es) = auto_retries - count' \<and>
      filter is_prompt es = []"
proof (induction "auto_retries - count'" arbitrary: count' w)
  case 0
  then have "count' = auto_retries" by simp
  then have "restore_node x n count' w = restore_node x n auto_retries (w\<lparr>trace := trace w @ []\<rparr>)"
    by simp
  with \<open>count' = auto_retries\<close> show ?case
    by (intro exI [of _ "[]"]) simp
next
  case (Suc k)
  then have less: "count' < auto_retries" and k: "k = auto_retries - (count' + 1)"
    and le: "count' + 1 \<le> auto_retries"
    by simp_all
  from attempt_never_operational [OF never, of w] obtain es1 where
    att: "attempt_make_operational x n w = (False, w\<lparr>trace := trace w @ es1\<rparr>)"
    and c1: "length (filter is_attempt es1) = 1" "length (filter is_sleep es1) = 1"
      "filter is_prompt es1 = []"
    by blast
  let ?w1 = "w\<lparr>trace := trace w @ es1 @ [Log Info ''Still not operational. Trying again.'' []]\<rparr>"
  from att less have step: "restore_node x n count' w = restore_node x n (count' + 1) ?w1"
    by (simp add: restore_node.simps [of x n count' w] log_def emit_def)
  from Suc.hyps(1) [OF k le, of ?w1] obtain es2 where
    rest: "restore_node x n (count' + 1) ?w1 =
        restore_node x n auto_retries (?w1\<lparr>trace := trace ?w1 @ es2\<rparr>)"
    and c2: "length (filter is_attempt es2) = auto_retries - (count' + 1)"
      "length (filter is_sleep es2) = auto_retries - (count' + 1)"
      "filter is_prompt es2 = []"
    by blast
  let ?es = "es1 @ [Log Info ''Still not operational. Trying again.'' []] @ es2"
  from step rest have "restore_node x n count' w =
      restore_node x n auto_retries (w\<lparr>trace := trace w @ ?es\<rparr>)"
    by simp
  moreover from c1 c2 less have "length (filter is_attempt ?es) = auto_retries - count'"
    "length (filter is_sleep ?es) = auto_retries - count'" "filter is_prompt ?es = []"
    by simp_all
  ultimately show ?case by blast
qed

lemma restore_node_at_the_bound:
  assumes never: "\<forall>t. \<not> is_operational_at x t n"
    and answer: "stdin w = a # rest" "a \<in> set opts_IRF"
  shows "\<exists>es. length (filter is_attempt es) = 1 \<and> length (filter is_sleep es) = 1 \<and>
      filter is_prompt es = [] \<and>
      restore_node x n auto_retries w =
        (if a = ''R'' then
           restore_node x n auto_retries
             (w\<lparr>trace := trace w @ es @ [Prompt (node_prompt_text n)], stdin := rest\<rparr>)
         else if a = ''I'' then
           (Returns (), w\<lparr>trace := trace w @ es @ [Prompt (node_prompt_text n)], stdin := rest\<rparr>)
         else
           (Raises (SystemExit 1),
            w\<lparr>trace := trace w @ es @ [Prompt (node_prompt_text n),
               Log Critical ''Node %s not healthy. Aborting deployment'' [S n]], stdin := rest\<rparr>))"
proof -
  from attempt_never_operational [OF never, of w] obtain es1 where
    att: "attempt_make_operational x n w = (False, w\<lparr>trace := trace w @ es1\<rparr>)"
    and c1: "length (filter is_attempt es1) = 1" "length (filter is_sleep es1) = 1"
      "filter is_prompt es1 = []"
    by blast
  let ?logs = "[Log Info ''Node %s not operational.'' [S n],
               Log Info ''Health check URL: %s'' [S (get_health_check_url x n)]]"
  let ?w1 = "w\<lparr>trace := trace w @ es1 @ ?logs\<rparr>"
  from answer have in1: "stdin ?w1 = a # rest" by simp
  have ask: "ask_about_node x n (w\<lparr>trace := trace w @ es1\<rparr>) =
      (Returns a, w\<lparr>trace := trace w @ es1 @ ?logs @ [Prompt (node_prompt_text n)], stdin := rest\<rparr>)"
    using prompt_until_valid_accepts [OF in1 answer(2), of "node_prompt_text n"]
    by (simp add: ask_about_node_def format_node_prompt node_prompt_text_def log_def emit_def)
  from answer(2) have cases: "a = ''R'' \<or> a = ''I'' \<or> a = ''F''"
    by (auto simp: opts_IRF_def)
  have "restore_node x n auto_retries w =
        (if a = ''R'' then
           restore_node x n auto_retries
             (w\<lparr>trace := trace w @ (es1 @ ?logs) @ [Prompt (node_prompt_text n)], stdin := rest\<rparr>)
         else if a = ''I'' then
           (Returns (), w\<lparr>trace := trace w @ (es1 @ ?logs) @ [Prompt (node_prompt_text n)], stdin := rest\<rparr>)
         else
           (Raises (SystemExit 1),
            w\<lparr>trace := trace w @ (es1 @ ?logs) @ [Prompt (node_prompt_text n),
               Log Critical ''Node %s not healthy. Aborting deployment'' [S n]], stdin := rest\<rparr>))"
    using cases att ask
    by (auto simp: restore_node.simps [of x n auto_retries w] exit_with_def log_def emit_def)
  moreover from c1 have "length (filter is_attempt (es1 @ ?logs)) = 1"
    "length (filter is_sleep (es1 @ ?logs)) = 1" "filter is_prompt (es1 @ ?logs) = []"
    by simp_all
  ultimately show ?thesis by blast
qed

lemma restore_node_never_operational:
  assumes never: "\<forall>t. \<not> is_operational_at x t n"
    and answer: "stdin w = a # rest" "a \<in> set opts_IRF"
  shows "\<exists>es. length (filter is_attempt es) = 11 \<and> length (filter is_sleep es) = 11 \<and>
      filter is_prompt es = [] \<and>
      restore_node x n 0 w =
        (if a = ''R'' then
           restore_node x n auto_retries
             (w\<lparr>trace := trace w @ es @ [Prompt (node_prompt_text n)], stdin := rest\<rparr>)
         else if a = ''I'' then
           (Returns (), w\<lparr>trace := trace w @ es @ [Prompt (node_prompt_text n)], stdin := rest\<rparr>)
         else
           (Raises (SystemExit 1),
            w\<lparr>trace := trace w @ es @ [Prompt (node_prompt_text n),
               Log Critical ''Node %s not healthy. Aborting deployment'' [S n]], stdin := rest\<rparr>))"
proof -
  from restore_node_automatic_phase [OF never, of 0 w] obtain es1 where
    auto: "restore_node x n 0 w = restore_node x n auto_retries (w\<lparr>trace := trace w @ es1\<rparr>)"
    and c1: "length (filter is_attempt es1) = 10" "length (filter is_sleep es1) = 10"
      "filter is_prompt es1 = []"
    by (auto simp: auto_retries_def)
  let ?w1 = "w\<lparr>trace := trace w @ es1\<rparr>"
  from answer have in1: "stdin ?w1 = a # rest" by simp
  from restore_node_at_the_bound [OF never in1 answer(2)] obtain es2 where
    c2: "length (filter is_attempt es2) = 1" "length (filter is_sleep es2) = 1"
      "filter is_prompt es2 = []"
    and last: "restore_node x n auto_retries ?w1 =
        (if a = ''R'' then
           restore_node x n auto_retries
             (?w1\<lparr>trace := trace ?w1 @ es2 @ [Prompt (node_prompt_text n)], stdin := rest\<rparr>)
         else if a = ''I'' then
           (Returns (), ?w1\<lparr>trace := trace ?w1 @ es2 @ [Prompt (node_prompt_text n)], stdin := rest\<rparr>)
         else
           (Raises (SystemExit 1),
            ?w1\<lparr>trace := trace ?w1 @ es2 @ [Prompt (node_prompt_text n),
               Log Critical ''Node %s not healthy. Aborting deployment'' [S n]], stdin := rest\<rparr>))"
    by blast
  from auto last have "restore_node x n 0 w =
        (if a = ''R'' then
           restore_node x n auto_retries
             (w\<lparr>trace := trace w @ (es1 @ es2) @ [Prompt (node_prompt_text n)], stdin := rest\<rparr>)
         else if a = ''I'' then
           (Returns (), w\<lparr>trace := trace w @ (es1 @ es2) @ [Prompt (node_prompt_text n)], stdin := rest\<rparr>)
         else
           (Raises (SystemExit 1),
            w\<lparr>trace := trace w @ (es1 @ es2) @ [Prompt (node_prompt_text n),
               Log Critical ''Node %s not healthy. Aborting deployment'' [S n]], stdin := rest\<rparr>))"
    by simp
  moreover from c1 c2 have "length (filter is_attempt (es1 @ es2)) = 11"
    "length (filter is_sleep (es1 @ es2)) = 11" "filter is_prompt (es1 @ es2) = []"
    by simp_all
  ultimately show ?thesis by blast
qed

text \<open>
  C4. In single-node mode (the code after the \<open>yield\<close>, with \<open>make_operational\<close> true
  and a known node), for a node whose \<open>is_operational\<close> is never true: the first prompt
  comes after exactly 11 \<open>make_operational()\<close> calls, and it is the only prompt when the
  answer is I or F. On the answer I the code returns, with the node not operational and
  nothing raised; on the answer F it raises \<open>SystemExit(1)\<close>: the process ends with
  status 1.
\<close>

theorem single_node_prompt_after_eleven_attempts:
  assumes never: "\<forall>t. \<not> is_operational_at x t n"
    and answer: "stdin w = a # rest" "a = ''I'' \<or> a = ''F''"
  shows "\<exists>w'. restore_operation x (Some n) True w =
        ((if a = ''I'' then Returns () else Raises (SystemExit 1)), w') \<and>
      per_prompt is_attempt 0 (events_since w w') = [11] \<and>
      length (filter is_attempt (events_since w w')) = 11 \<and>
      filter is_prompt (events_since w w') = [Prompt (node_prompt_text n)] \<and>
      \<not> is_operational_at x (trace w') n \<and>
      stdin w' = rest"
proof -
  let ?w0 = "w\<lparr>trace := trace w @ [Log Info ''Restoring operation: %s'' [S n]]\<rparr>"
  have start: "restore_operation x (Some n) True w = restore_node x n 0 ?w0"
    by (simp add: restore_operation_def log_def emit_def py_str_def)
  from answer have in0: "stdin ?w0 = a # rest" and valid: "a \<in> set opts_IRF" and notR: "a \<noteq> ''R''"
    by (auto simp: opts_IRF_def)
  from restore_node_never_operational [OF never in0 valid] notR obtain es where
    c: "length (filter is_attempt es) = 11" "filter is_prompt es = []"
    and run: "restore_node x n 0 ?w0 =
        (if a = ''I'' then
           (Returns (), ?w0\<lparr>trace := trace ?w0 @ es @ [Prompt (node_prompt_text n)], stdin := rest\<rparr>)
         else
           (Raises (SystemExit 1),
            ?w0\<lparr>trace := trace ?w0 @ es @ [Prompt (node_prompt_text n),
               Log Critical ''Node %s not healthy. Aborting deployment'' [S n]], stdin := rest\<rparr>))"
    by auto
  let ?tail = "if a = ''I'' then [] else [Log Critical ''Node %s not healthy. Aborting deployment'' [S n]]"
  let ?new = "Log Info ''Restoring operation: %s'' [S n] # es @ Prompt (node_prompt_text n) # ?tail"
  let ?w' = "w\<lparr>trace := trace w @ ?new, stdin := rest\<rparr>"
  from start run have "restore_operation x (Some n) True w =
      ((if a = ''I'' then Returns () else Raises (SystemExit 1)), ?w')"
    by simp
  moreover have since: "events_since w ?w' = ?new"
    by (simp add: events_since_def)
  moreover from c have "per_prompt is_attempt 0 ?new = [11]"
    using per_prompt_append [of es is_attempt 0 "Prompt (node_prompt_text n) # ?tail"]
    by simp
  moreover from c have "length (filter is_attempt ?new) = 11"
    "filter is_prompt ?new = [Prompt (node_prompt_text n)]"
    by simp_all
  moreover from never have "\<not> is_operational_at x (trace ?w') n" by blast
  moreover have "stdin ?w' = rest" by simp
  ultimately show ?thesis by metis
qed

theorem single_node_prompt_after_eleven_attempts_witness:
  "(\<exists>w'. restore_operation idle_fleet (Some ''web0'') True (fresh [''I'']) = (Returns (), w') \<and>
      per_prompt is_attempt 0 (events_since (fresh [''I'']) w') = [11] \<and> stdin w' = []) \<and>
   (\<exists>w'. restore_operation idle_fleet (Some ''web0'') True (fresh [''F'', ''I'']) =
        (Raises (SystemExit 1), w') \<and>
      per_prompt is_attempt 0 (events_since (fresh [''F'', ''I'']) w') = [11] \<and> stdin w' = [''I''])"
proof -
  have never: "\<forall>t. \<not> is_operational_at idle_fleet t ''web0''"
    by (simp add: idle_fleet_def)
  have "stdin (fresh [''I'']) = ''I'' # []" and "stdin (fresh [''F'', ''I'']) = ''F'' # [''I'']"
    by (simp_all add: fresh_def)
  from single_node_prompt_after_eleven_attempts [OF never this(1)]
    single_node_prompt_after_eleven_attempts [OF never this(2)]
  show ?thesis by auto
qed

text \<open>
  C9. In single-node mode, for a node that is never operational, the answer R at the
  first prompt (which comes after 11 attempts) does not reset \<open>count\<close>: the second
  prompt comes after exactly one more \<open>make_operational()\<close> call and one more wait of a
  second, not after another 11.
\<close>

theorem retry_after_the_bound_is_one_attempt:
  assumes never: "\<forall>t. \<not> is_operational_at x t n"
    and answer: "stdin w = ''R'' # a # rest" "a = ''I'' \<or> a = ''F''"
  shows "\<exists>w'. restore_operation x (Some n) True w =
        ((if a = ''I'' then Returns () else Raises (SystemExit 1)), w') \<and>
      per_prompt is_attempt 0 (events_since w w') = [11, 1] \<and>
      per_prompt is_sleep 0 (events_since w w') = [11, 1] \<and>
      length (filter is_attempt (events_since w w')) = 12 \<and>
      stdin w' = rest"
proof -
  let ?w0 = "w\<lparr>trace := trace w @ [Log Info ''Restoring operation: %s'' [S n]]\<rparr>"
  have start: "restore_operation x (Some n) True w = restore_node x n 0 ?w0"
    by (simp add: restore_operation_def log_def emit_def py_str_def)
  from answer have in0: "stdin ?w0 = ''R'' # a # rest" and valid: "a \<in> set opts_IRF"
    and notR: "a \<noteq> ''R''" and validR: "''R'' \<in> set opts_IRF"
    by (auto simp: opts_IRF_def)
  from restore_node_never_operational [OF never in0 validR] obtain es where
    c: "length (filter is_attempt es) = 11" "length (filter is_sleep es) = 11"
      "filter is_prompt es = []"
    and first: "restore_node x n 0 ?w0 =
        restore_node x n auto_retries
          (?w0\<lparr>trace := trace ?w0 @ es @ [Prompt (node_prompt_text n)], stdin := a # rest\<rparr>)"
    by auto
  let ?w1 = "?w0\<lparr>trace := trace ?w0 @ es @ [Prompt (node_prompt_text n)], stdin := a # rest\<rparr>"
  have in1: "stdin ?w1 = a # rest" by simp
  from restore_node_at_the_bound [OF never in1 valid] notR obtain es' where
    c': "length (filter is_attempt es') = 1" "length (filter is_sleep es') = 1"
      "filter is_prompt es' = []"
    and second: "restore_node x n auto_retries ?w1 =
        (if a = ''I'' then
           (Returns (), ?w1\<lparr>trace := trace ?w1 @ es' @ [Prompt (node_prompt_text n)], stdin := rest\<rparr>)
         else
           (Raises (SystemExit 1),
            ?w1\<lparr>trace := trace ?w1 @ es' @ [Prompt (node_prompt_text n),
               Log Critical ''Node %s not healthy. Aborting deployment'' [S n]], stdin := rest\<rparr>))"
    by auto
  let ?tail = "if a = ''I'' then [] else [Log Critical ''Node %s not healthy. Aborting deployment'' [S n]]"
  let ?new = "Log Info ''Restoring operation: %s'' [S n] # es @ Prompt (node_prompt_text n) #
              es' @ Prompt (node_prompt_text n) # ?tail"
  let ?w' = "w\<lparr>trace := trace w @ ?new, stdin := rest\<rparr>"
  from start first second have "restore_operation x (Some n) True w =
      ((if a = ''I'' then Returns () else Raises (SystemExit 1)), ?w')"
    by simp
  moreover have since: "events_since w ?w' = ?new"
    by (simp add: events_since_def)
  moreover from c c' have "per_prompt is_attempt 0 ?new = [11, 1]"
    using per_prompt_append [of es is_attempt 0 "Prompt (node_prompt_text n) # es' @ Prompt (node_prompt_text n) # ?tail"]
      per_prompt_append [of es' is_attempt 0 "Prompt (node_prompt_text n) # ?tail"]
    by simp
  moreover from c c' have "per_prompt is_sleep 0 ?new = [11, 1]"
    using per_prompt_append [of es is_sleep 0 "Prompt (node_prompt_text n) # es' @ Prompt (node_prompt_text n) # ?tail"]
      per_prompt_append [of es' is_sleep 0 "Prompt (node_prompt_text n) # ?tail"]
    by simp
  moreover from c c' have "length (filter is_attempt ?new) = 12"
    by simp
  moreover have "stdin ?w' = rest" by simp
  ultimately show ?thesis by metis
qed

theorem retry_after_the_bound_is_one_attempt_witness:
  "\<exists>w'. restore_operation idle_fleet (Some ''web0'') True (fresh [''R'', ''F'']) =
        (Raises (SystemExit 1), w') \<and>
      per_prompt is_attempt 0 (events_since (fresh [''R'', ''F'']) w') = [11, 1] \<and>
      per_prompt is_sleep 0 (events_since (fresh [''R'', ''F'']) w') = [11, 1] \<and>
      stdin w' = []"
proof -
  have never: "\<forall>t. \<not> is_operational_at idle_fleet t ''web0''"
    by (simp add: idle_fleet_def)
  have "stdin (fresh [''R'', ''F'']) = ''R'' # ''F'' # []"
    by (simp add: fresh_def)
  from retry_after_the_bound_is_one_attempt [OF never this]
  show ?thesis by auto
qed

lemma seamless_modification_restoration:
  assumes "check_redundancy x node force_seamless w = (Returns (), w1)"
    and "rotate_out x node make_operational_if_not_already w1 = (make_operational, w2)"
    and "body w2 = (Returns (), w3)"
  shows "seamless_modification x node force_seamless make_operational_if_not_already body w =
    restore_operation x node make_operational w3"
  using assms by (simp add: seamless_modification_def and_then_def)

text \<open>
  C6. For a node that exists, with \<open>force_seamless\<close> set, when
  \<open>has_required_redundancy(node)\<close> is false and \<open>env['interactive']\<close> is false,
  \<open>seamless_modification\<close> raises \<open>SystemExit(1)\<close> after two critical log records and
  nothing else: the node is not rotated out and the body of the \<open>with\<close> statement (the
  caller's mutation, any \<open>body\<close>) does not run.
\<close>

theorem unattended_run_aborts_before_mutation:
  assumes "\<not> has_required_redundancy_at x (trace w) n" and "env_interactive x = Some False"
  shows "seamless_modification x (Some n) True make_operational_if_not_already body w =
    (Raises (SystemExit 1),
     w\<lparr>trace := trace w @
        [Log Critical ''Not possible to avoid service interruption to node %s'' [S n],
         Log Critical ''Deployment marked non-interactive. Aborting.'' []]\<rparr>)"
  using assms
  by (simp add: seamless_modification_def and_then_def check_redundancy_def interactive_def
      exit_with_def log_def emit_def)

theorem unattended_run_aborts_before_mutation_witness:
  "seamless_modification idle_fleet (Some ''web0'') True True (run idle_fleet seeded_deployer) (fresh []) =
    (Raises (SystemExit 1),
     \<lparr>trace =
        [Log Critical ''Not possible to avoid service interruption to node %s'' [S ''web0''],
         Log Critical ''Deployment marked non-interactive. Aborting.'' []], stdin = []\<rparr>)"
proof -
  have "\<not> has_required_redundancy_at idle_fleet (trace (fresh [])) ''web0''"
    and "env_interactive idle_fleet = Some False"
    by (simp_all add: idle_fleet_def)
  from unattended_run_aborts_before_mutation [OF this]
  show ?thesis by (simp add: fresh_def)
qed

lemma generation_mode_raises_before_prompt:
  assumes "\<not> active_is_fully_operational_at x
      (trace w @ [Log Info ''Restoring operation: %s'' [S ''None''],
                  RepairActiveGeneration True (Some False)])"
  shows "restore_operation x None True w =
    (Raises (TypeError ''not all arguments converted during string formatting''),
     w\<lparr>trace := trace w @ [Log Info ''Restoring operation: %s'' [S ''None''],
                            RepairActiveGeneration True (Some False)]\<rparr>)"
  using assms
  by (simp add: restore_operation_def restore_generation.simps ask_about_generation_def
      format_generation_prompt prompt_until_valid_format_error log_def emit_def py_str_def Let_def)

text \<open>
  C5. Claim: in generation mode, when \<open>active_is_fully_operational()\<close> is false after
  \<open>repair_active_generation\<close>, the operator gets the Ignore/Retry/Fail prompt and nothing
  is raised on the way. The code formats \<open>prompt_str % node\<close> with a \<open>prompt_str\<close> that
  has no conversion, which raises \<open>TypeError\<close> before \<open>prompt\<close> is called: in the run
  below the operator has the answer I ready and is never asked.
\<close>

theorem generation_mode_prompt_raises_type_error:
  "seamless_modification idle_fleet None True True (\<lambda>w. (Returns (), w)) (fresh [''I'']) =
    (Raises (TypeError ''not all arguments converted during string formatting''),
     \<lparr>trace = [Log Info ''Restoring operation: %s'' [S ''None''],
               RepairActiveGeneration True (Some False)],
      stdin = [''I'']\<rparr>)"
proof -
  have "check_redundancy idle_fleet None True (fresh [''I'']) = (Returns (), fresh [''I''])"
    by (simp add: check_redundancy_def)
  moreover have "rotate_out idle_fleet None True (fresh [''I'']) = (True, fresh [''I''])"
    by (simp add: rotate_out_def)
  ultimately have "seamless_modification idle_fleet None True True (\<lambda>w. (Returns (), w)) (fresh [''I''])
      = restore_operation idle_fleet None True (fresh [''I''])"
    by (rule seamless_modification_restoration) simp
  moreover have "\<not> active_is_fully_operational_at idle_fleet
      (trace (fresh [''I'']) @ [Log Info ''Restoring operation: %s'' [S ''None''],
                  RepairActiveGeneration True (Some False)])"
    by (simp add: idle_fleet_def)
  ultimately show ?thesis
    by (simp add: generation_mode_raises_before_prompt fresh_def)
qed

section \<open>Properties of the Seed Verification Gate\<close>

lemma gate_starts_with_prompt:
  "prompt_for_seed_verification d w =
     and_then (prompt_until_valid [''Yes'', ''No''] (Inr (seed_prompt_text d)) None)
       (\<lambda>user_opt w'.
          if user_opt \<noteq> ''Yes'' then
            exit_with 1
              (log Critical ''Node %s-%s would be affected. Aborting deployment''
                 [S (py_str (seed_deployment d)), S (py_str (seed_node_name d))] w')
          else (Returns (), w'))
       w"
  by (simp add: prompt_for_seed_verification_def Let_def py_format_def seed_prompt_text_def)

lemma prompt_until_valid_trace_grows:
  "prompt_until_valid opts fm u w = (r, w') \<Longrightarrow> \<exists>es. trace w' = trace w @ es"
proof (induction opts fm u w rule: prompt_until_valid.induct)
  case (1 opts fm user_opt w)
  from "1.prems" have eq:
    "(case (case user_opt of None \<Rightarrow> None | Some a \<Rightarrow> if a \<in> set opts then Some a else None) of
        Some a \<Rightarrow> (Returns a, w)
      | None \<Rightarrow>
          (case fm of
             Inl e \<Rightarrow> (Raises e, w)
           | Inr t \<Rightarrow>
               (case prompt t w of
                  (Returns a, w1) \<Rightarrow> prompt_until_valid opts fm (Some a) w1
                | (Raises e, w1) \<Rightarrow> (Raises e, w1)
                | (Hangs, w1) \<Rightarrow> (Hangs, w1)))) = (r, w')"
    by (simp add: prompt_until_valid.simps [of opts fm user_opt w])
  show ?case
  proof (cases "case user_opt of None \<Rightarrow> None | Some a \<Rightarrow> if a \<in> set opts then Some a else None")
    case (Some b)
    with eq show ?thesis by simp
  next
    case None
    show ?thesis
    proof (cases fm)
      case (Inl e)
      with None eq show ?thesis by simp
    next
      case (Inr t)
      show ?thesis
      proof (cases "stdin w")
        case Nil
        with None Inr eq show ?thesis
          by (auto simp: prompt_def emit_def)
      next
        case (Cons b later)
        let ?w1 = "(emit (Prompt t) w)\<lparr>stdin := later\<rparr>"
        from Cons have p: "prompt t w = (Returns b, ?w1)"
          by (simp add: prompt_def)
        with None Inr eq have "prompt_until_valid opts fm (Some b) ?w1 = (r, w')"
          by simp
        from "1.IH" [OF None Inr p [symmetric] refl this]
        obtain es where "trace w' = trace ?w1 @ es" by blast
        then show ?thesis by (simp add: emit_def)
      qed
    qed
  qed
qed

lemma gate_prompts_first:
  "\<exists>r w' es. prompt_for_seed_verification d w = (r, w') \<and>
     trace w' = trace w @ Prompt (seed_prompt_text d) # es"
proof (cases "stdin w")
  case Nil
  then show ?thesis
    by (simp add: gate_starts_with_prompt and_then_def prompt_def emit_def
        prompt_until_valid.simps [of _ _ None])
next
  case (Cons b later)
  let ?w1 = "(emit (Prompt (seed_prompt_text d)) w)\<lparr>stdin := later\<rparr>"
  obtain r1 w2 where rec: "prompt_until_valid [''Yes'', ''No''] (Inr (seed_prompt_text d)) (Some b) ?w1 = (r1, w2)"
    by (cases "prompt_until_valid [''Yes'', ''No''] (Inr (seed_prompt_text d)) (Some b) ?w1") blast
  from prompt_until_valid_trace_grows [OF rec] obtain es where
    es: "trace w2 = trace w @ Prompt (seed_prompt_text d) # es"
    by (auto simp: emit_def)
  from Cons rec have "prompt_until_valid [''Yes'', ''No''] (Inr (seed_prompt_text d)) None w = (r1, w2)"
    by (simp add: prompt_until_valid.simps [of _ _ None w] prompt_def)
  with es show ?thesis
    by (cases r1) (auto simp: gate_starts_with_prompt and_then_def exit_with_def log_def emit_def)
qed

text \<open>
  The body of the provisioning loops at a deployer with \<open>seed_verification\<close> whose node
  does not exist, by the first answer of the operator.
\<close>

lemma provision_nodes_append:
  "provision_nodes x (pre @ post) w =
     (case provision_nodes x pre w of
        (Returns u, w1) \<Rightarrow> provision_nodes x post w1
      | (Raises e, w1) \<Rightarrow> (Raises e, w1)
      | (Hangs, w1) \<Rightarrow> (Hangs, w1))"
  by (induction pre arbitrary: w) (auto split: prod.splits outcome.splits)

lemma provision_node_at_the_gate:
  assumes "seed_verification d" and "get_node_at x (trace w) d = None" and "stdin w = a # rest"
  shows "provision_node x d w =
    (if a = ''Yes'' then
       (case ensure_node_created_fails x (trace w @ [Prompt (seed_prompt_text d)]) d of
          None \<Rightarrow> Returns ()
        | Some e \<Rightarrow> Raises e,
        w\<lparr>trace := trace w @ [Prompt (seed_prompt_text d), EnsureNodeCreated d], stdin := rest\<rparr>)
     else if a = ''No'' then
       (Raises (SystemExit 1),
        w\<lparr>trace := trace w @ [Prompt (seed_prompt_text d),
             Log Critical ''Node %s-%s would be affected. Aborting deployment''
               [S (py_str (seed_deployment d)), S (py_str (seed_node_name d))]],
          stdin := rest\<rparr>)
     else
       and_then (prompt_for_seed_verification d) (\<lambda>u. ensure_node_created x d)
         (w\<lparr>trace := trace w @ [Prompt (seed_prompt_text d)], stdin := rest\<rparr>))"
proof -
  have gate: "provision_node x d w =
      and_then (prompt_for_seed_verification d) (\<lambda>u. ensure_node_created x d) w"
    using assms(1,2) by (simp add: provision_node_def and_then_def)
  show ?thesis
  proof (cases "a \<in> set [''Yes'', ''No'']")
    case True
    from prompt_until_valid_accepts [OF assms(3) True, of "seed_prompt_text d"] True
    show ?thesis
      by (auto simp: gate gate_starts_with_prompt and_then_def ensure_node_created_def
          external_call_def exit_with_def log_def emit_def split: option.splits)
  next
    case False
    from prompt_until_valid_rejects [OF assms(3) False, of "seed_prompt_text d"] False
    show ?thesis
      by (simp add: gate gate_starts_with_prompt and_then_def)
  qed
qed

text \<open>
  C7, as stated, fails in \<open>up\<close>: the provisioning loops stand after \<open>assert False\<close>. In
  the run below \<open>up\<close> builds a deployer with \<open>seed_verification\<close> whose node does not
  exist, and the operator has the answer No ready; \<open>up\<close> raises \<open>AssertionError\<close>, no
  prompt is shown and the answer is not read: the gate does not run.
\<close>

theorem up_never_runs_seed_gate_counterexample:
  "up (idle_fleet\<lparr>get_environment_config := (\<lambda>name. seeded_config),
                  get_seed_environment_name := (\<lambda>name. Some ''staging'')\<rparr>)
      ''prod'' ''active'' (fresh [''No'']) =
     (Raises AssertionError,
      \<lparr>trace = [Log Info ''Gathering deployment state'' [],
                VerifyDeploymentState ''prod'' (Some False),
                Log Info ''Gathering seed deployment state'' [],
                Log Info ''Verifying seed deployment state'' [],
                VerifyDeploymentState ''staging'' (Some False),
                Log Info ''Building Node deployers'' []],
       stdin = [''No'']\<rparr>) \<and>
   fst (build_deployers ''prod'' (Some ''staging'') seeded_config (fresh [''No''])) =
     Returns ([], [seeded_deployer]) \<and>
   seed_verification seeded_deployer \<and>
   get_node_at idle_fleet [] seeded_deployer = None"
  by (simp add: up_def Let_def and_then_def py_assert_def verify_deployment_state_def
      external_call_def gather_seed_deployment_def build_deployers_def build_deployer_def
      seed_settings_def get_section_def seeded_config_def seeded_deployer_def idle_fleet_def
      fresh_def log_def emit_def)

text \<open>
  C7, amended. Whenever the provisioning loops run (in \<open>up\<close> as written they are never
  reached), for every deployer of the batch with \<open>seed_verification\<close> whose
  \<open>get_node()\<close> returns \<open>None\<close> when its turn comes, the Seed Verification Gate runs before
  \<open>ensure_node_created()\<close>. With the deployers \<open>pre\<close> before it provisioned and the
  operator's next answer \<open>a\<close>: on Yes the prompt is followed by \<open>ensure_node_created()\<close>
  and the loop goes on with the deployers after it; on No the loop raises
  \<open>SystemExit(1)\<close> after the prompt and one critical log record, with no
  \<open>ensure_node_created()\<close> for that deployer; on any other answer the gate runs again
  from the state after the first prompt, and the gate always starts by prompting. The
  answer No ends the whole code after the assertion in the same way, in the RDS loop and
  in the EC2 loop.
\<close>

theorem seed_gate_precedes_node_creation:
  assumes turn: "provision_nodes x pre w = (Returns (), w1)"
    and flag: "seed_verification d"
    and absent: "get_node_at x (trace w1) d = None"
    and answer: "stdin w1 = a # rest"
  shows "provision_nodes x (pre @ d # post) w =
    (if a = ''Yes'' then
       (case ensure_node_created_fails x (trace w1 @ [Prompt (seed_prompt_text d)]) d of
          None \<Rightarrow>
            provision_nodes x post
              (w1\<lparr>trace := trace w1 @ [Prompt (seed_prompt_text d), EnsureNodeCreated d],
                  stdin := rest\<rparr>)
        | Some e \<Rightarrow>
            (Raises e,
             w1\<lparr>trace := trace w1 @ [Prompt (seed_prompt_text d), EnsureNodeCreated d],
                 stdin := rest\<rparr>))
     else if a = ''No'' then
       (Raises (SystemExit 1),
        w1\<lparr>trace := trace w1 @ [Prompt (seed_prompt_text d),
             Log Critical ''Node %s-%s would be affected. Aborting deployment''
               [S (py_str (seed_deployment d)), S (py_str (seed_node_name d))]],
           stdin := rest\<rparr>)
     else
       (case and_then (prompt_for_seed_verification d) (\<lambda>u. ensure_node_created x d)
               (w1\<lparr>trace := trace w1 @ [Prompt (seed_prompt_text d)], stdin := rest\<rparr>) of
          (Returns u, w2) \<Rightarrow> provision_nodes x post w2
        | (Raises e, w2) \<Rightarrow> (Raises e, w2)
        | (Hangs, w2) \<Rightarrow> (Hangs, w2))) \<and>
    (\<exists>r w' es. prompt_for_seed_verification d origin = (r, w') \<and>
       trace w' = trace origin @ Prompt (seed_prompt_text d) # es) \<and>
    (a = ''No'' \<and> w = log Info ''Provisioning RDS nodes'' [] origin \<longrightarrow>
       rollout x make_operational ec2_deployers (pre @ d # post) origin =
         (Raises (SystemExit 1),
          w1\<lparr>trace := trace w1 @ [Prompt (seed_prompt_text d),
               Log Critical ''Node %s-%s would be affected. Aborting deployment''
                 [S (py_str (seed_deployment d)), S (py_str (seed_node_name d))]],
             stdin := rest\<rparr>)) \<and>
    (a = ''No'' \<and>
     provision_nodes x rds_deployers (log Info ''Provisioning RDS nodes'' [] origin) = (Returns (), wr) \<and>
     w = log Info ''Provisioning EC2 nodes'' [] wr \<longrightarrow>
       rollout x make_operational (pre @ d # post) rds_deployers origin =
         (Raises (SystemExit 1),
          w1\<lparr>trace := trace w1 @ [Prompt (seed_prompt_text d),
               Log Critical ''Node %s-%s would be affected. Aborting deployment''
                 [S (py_str (seed_deployment d)), S (py_str (seed_node_name d))]],
             stdin := rest\<rparr>))"
proof -
  let ?no = "(Raises (SystemExit 1),
        w1\<lparr>trace := trace w1 @ [Prompt (seed_prompt_text d),
             Log Critical ''Node %s-%s would be affected. Aborting deployment''
               [S (py_str (seed_deployment d)), S (py_str (seed_node_name d))]],
           stdin := rest\<rparr>) :: unit outcome \<times> world"
  have loop: "provision_nodes x (pre @ d # post) w =
      (case provision_node x d w1 of
         (Returns u, w2) \<Rightarrow> provision_nodes x post w2
       | (Raises e, w2) \<Rightarrow> (Raises e, w2)
       | (Hangs, w2) \<Rightarrow> (Hangs, w2))"
    using turn by (simp add: provision_nodes_append)
  have first: "provision_nodes x (pre @ d # post) w =
    (if a = ''Yes'' then
       (case ensure_node_created_fails x (trace w1 @ [Prompt (seed_prompt_text d)]) d of
          None \<Rightarrow>
            provision_nodes x post
              (w1\<lparr>trace := trace w1 @ [Prompt (seed_prompt_text d), EnsureNodeCreated d],
                  stdin := rest\<rparr>)
        | Some e \<Rightarrow>
            (Raises e,
             w1\<lparr>trace := trace w1 @ [Prompt (seed_prompt_text d), EnsureNodeCreated d],
                 stdin := rest\<rparr>))
     else if a = ''No'' then ?no
     else
       (case and_then (prompt_for_seed_verification d) (\<lambda>u. ensure_node_created x d)
               (w1\<lparr>trace := trace w1 @ [Prompt (seed_prompt_text d)], stdin := rest\<rparr>) of
          (Returns u, w2) \<Rightarrow> provision_nodes x post w2
        | (Raises e, w2) \<Rightarrow> (Raises e, w2)
        | (Hangs, w2) \<Rightarrow> (Hangs, w2)))"
    unfolding loop provision_node_at_the_gate [OF flag absent answer]
    by (simp split: option.splits)
  have rds: "rollout x make_operational ec2_deployers (pre @ d # post) origin = ?no"
    if "a = ''No''" and "w = log Info ''Provisioning RDS nodes'' [] origin"
    using that first by (simp add: rollout_def and_then_def)
  have ec2: "rollout x make_operational (pre @ d # post) rds_deployers origin = ?no"
    if "a = ''No''"
      and "provision_nodes x rds_deployers (log Info ''Provisioning RDS nodes'' [] origin) = (Returns (), wr)"
      and "w = log Info ''Provisioning EC2 nodes'' [] wr"
    using that first by (simp add: rollout_def and_then_def)
  from first gate_prompts_first [of d origin] rds ec2 show ?thesis
    by blast
qed

theorem seed_gate_precedes_node_creation_witness:
  "provision_nodes idle_fleet [plain_deployer, seeded_deployer, plain_deployer] (fresh [''Yes'']) =
     (Returns (),
      \<lparr>trace = [EnsureNodeCreated plain_deployer, Prompt (seed_prompt_text seeded_deployer),
                EnsureNodeCreated seeded_deployer, EnsureNodeCreated plain_deployer],
       stdin = []\<rparr>) \<and>
   provision_nodes idle_fleet [plain_deployer, seeded_deployer, plain_deployer] (fresh [''no'', ''No'']) =
     (Raises (SystemExit 1),
      \<lparr>trace = [EnsureNodeCreated plain_deployer, Prompt (seed_prompt_text seeded_deployer),
                Prompt (seed_prompt_text seeded_deployer),
                Log Critical ''Node %s-%s would be affected. Aborting deployment''
                  [S ''staging'', S ''db-seed'']],
       stdin = []\<rparr>) \<and>
   rollout idle_fleet (Some True) [] [plain_deployer, seeded_deployer, plain_deployer]
       (fresh [''No'', ''Yes'']) =
     (Raises (SystemExit 1),
      \<lparr>trace = [Log Info ''Provisioning RDS nodes'' [], EnsureNodeCreated plain_deployer,
                Prompt (seed_prompt_text seeded_deployer),
                Log Critical ''Node %s-%s would be affected. Aborting deployment''
                  [S ''staging'', S ''db-seed'']],
       stdin = [''Yes'']\<rparr>) \<and>
   rollout idle_fleet (Some True) [plain_deployer, seeded_deployer] [plain_deployer] (fresh [''No'']) =
     (Raises (SystemExit 1),
      \<lparr>trace = [Log Info ''Provisioning RDS nodes'' [], EnsureNodeCreated plain_deployer,
                Log Info ''Provisioning EC2 nodes'' [], EnsureNodeCreated plain_deployer,
                Prompt (seed_prompt_text seeded_deployer),
                Log Critical ''Node %s-%s would be affected. Aborting deployment''
                  [S ''staging'', S ''db-seed'']],
       stdin = []\<rparr>)"
proof -
  have one: "provision_node idle_fleet plain_deployer v =
      (Returns (), v\<lparr>trace := trace v @ [EnsureNodeCreated plain_deployer]\<rparr>)" for v
    by (simp add: provision_node_def and_then_def ensure_node_created_def external_call_def
        idle_fleet_def plain_deployer_def emit_def)
  then have plain: "provision_nodes idle_fleet [plain_deployer] v =
      (Returns (), v\<lparr>trace := trace v @ [EnsureNodeCreated plain_deployer]\<rparr>)" for v
    by simp
  have flag: "seed_verification seeded_deployer"
    by (simp add: seeded_deployer_def)
  have absent: "get_node_at idle_fleet t seeded_deployer = None" for t
    by (simp add: idle_fleet_def)
  have names: "py_str (seed_deployment seeded_deployer) = ''staging''"
    "py_str (seed_node_name seeded_deployer) = ''db-seed''"
    by (simp_all add: seeded_deployer_def py_str_def)
  have created: "ensure_node_created_fails idle_fleet t d = None" for t d
    by (simp add: idle_fleet_def)
  note gate = seed_gate_precedes_node_creation [OF plain flag absent]
  have yes: "stdin ((fresh [''Yes''])\<lparr>trace := trace (fresh [''Yes'']) @
        [EnsureNodeCreated plain_deployer]\<rparr>) = ''Yes'' # []"
    and other: "stdin ((fresh [''no'', ''No''])\<lparr>trace := trace (fresh [''no'', ''No'']) @
        [EnsureNodeCreated plain_deployer]\<rparr>) = ''no'' # [''No'']"
    by (simp_all add: fresh_def)
  let ?r = "log Info ''Provisioning RDS nodes'' [] (fresh [''No'', ''Yes''])"
  have no_rds: "stdin (?r\<lparr>trace := trace ?r @ [EnsureNodeCreated plain_deployer]\<rparr>) = ''No'' # [''Yes'']"
    by (simp add: fresh_def log_def emit_def)
  let ?r0 = "log Info ''Provisioning RDS nodes'' [] (fresh [''No''])"
  let ?wr = "?r0\<lparr>trace := trace ?r0 @ [EnsureNodeCreated plain_deployer]\<rparr>"
  let ?e = "log Info ''Provisioning EC2 nodes'' [] ?wr"
  have no_ec2: "stdin (?e\<lparr>trace := trace ?e @ [EnsureNodeCreated plain_deployer]\<rparr>) = ''No'' # []"
    by (simp add: fresh_def log_def emit_def)
  let ?again = "\<lparr>trace = [EnsureNodeCreated plain_deployer, Prompt (seed_prompt_text seeded_deployer)],
      stdin = [''No'']\<rparr>"
  have "stdin ?again = ''No'' # []" and "''No'' \<in> set [''Yes'', ''No'']"
    by simp_all
  from prompt_until_valid_accepts [OF this, of "seed_prompt_text seeded_deployer"]
  have second: "and_then (prompt_for_seed_verification seeded_deployer)
      (\<lambda>u. ensure_node_created idle_fleet seeded_deployer) ?again =
     (Raises (SystemExit 1),
      \<lparr>trace = [EnsureNodeCreated plain_deployer, Prompt (seed_prompt_text seeded_deployer),
         Prompt (seed_prompt_text seeded_deployer),
         Log Critical ''Node %s-%s would be affected. Aborting deployment''
           [S ''staging'', S ''db-seed'']],
       stdin = []\<rparr>)"
    by (simp add: gate_starts_with_prompt and_then_def exit_with_def log_def emit_def names)
  from gate [OF yes, where post = "[plain_deployer]", THEN conjunct1]
  have c1: "provision_nodes idle_fleet [plain_deployer, seeded_deployer, plain_deployer] (fresh [''Yes'']) =
     (Returns (),
      \<lparr>trace = [EnsureNodeCreated plain_deployer, Prompt (seed_prompt_text seeded_deployer),
                EnsureNodeCreated seeded_deployer, EnsureNodeCreated plain_deployer],
       stdin = []\<rparr>)"
    by (simp add: created one fresh_def)
  from gate [OF other, where post = "[plain_deployer]", THEN conjunct1] second
  have c2: "provision_nodes idle_fleet [plain_deployer, seeded_deployer, plain_deployer]
      (fresh [''no'', ''No'']) =
     (Raises (SystemExit 1),
      \<lparr>trace = [EnsureNodeCreated plain_deployer, Prompt (seed_prompt_text seeded_deployer),
                Prompt (seed_prompt_text seeded_deployer),
                Log Critical ''Node %s-%s would be affected. Aborting deployment''
                  [S ''staging'', S ''db-seed'']],
       stdin = []\<rparr>)"
    by (simp add: one fresh_def)
  from gate [OF no_rds, where post = "[plain_deployer]" and origin = "fresh [''No'', ''Yes'']"
      and make_operational = "Some True" and ec2_deployers = "[]",
      THEN conjunct2, THEN conjunct2, THEN conjunct1]
  have c3: "rollout idle_fleet (Some True) [] [plain_deployer, seeded_deployer, plain_deployer]
       (fresh [''No'', ''Yes'']) =
     (Raises (SystemExit 1),
      \<lparr>trace = [Log Info ''Provisioning RDS nodes'' [], EnsureNodeCreated plain_deployer,
                Prompt (seed_prompt_text seeded_deployer),
                Log Critical ''Node %s-%s would be affected. Aborting deployment''
                  [S ''staging'', S ''db-seed'']],
       stdin = [''Yes'']\<rparr>)"
    by (simp add: names one fresh_def log_def emit_def)
  from gate [OF no_ec2, where post = "[]" and origin = "fresh [''No'']"
      and make_operational = "Some True" and rds_deployers = "[plain_deployer]" and wr = ?wr,
      THEN conjunct2, THEN conjunct2, THEN conjunct2] plain [of ?r0]
  have c4: "rollout idle_fleet (Some True) [plain_deployer, seeded_deployer] [plain_deployer] (fresh [''No'']) =
     (Raises (SystemExit 1),
      \<lparr>trace = [Log Info ''Provisioning RDS nodes'' [], EnsureNodeCreated plain_deployer,
                Log Info ''Provisioning EC2 nodes'' [], EnsureNodeCreated plain_deployer,
                Prompt (seed_prompt_text seeded_deployer),
                Log Critical ''Node %s-%s would be affected. Aborting deployment''
                  [S ''staging'', S ''db-seed'']],
       stdin = []\<rparr>)"
    by (simp add: names one fresh_def log_def emit_def)
  from c1 c2 c3 c4 show ?thesis by simp
qed

section \<open>Properties of the Rollout Orchestrator\<close>

lemma passive_extension_iff:
  "passive_extension w w' \<longleftrightarrow>
     (\<exists>es. trace w' = trace w @ es \<and> list_all is_passive es \<and> stdin w' = stdin w)"
proof
  assume p: "passive_extension w w'"
  then have "trace w' = trace w @ events_since w w'"
    unfolding passive_extension_def events_since_def
    by (metis append_take_drop_id)
  with p show "\<exists>es. trace w' = trace w @ es \<and> list_all is_passive es \<and> stdin w' = stdin w"
    unfolding passive_extension_def by blast
next
  assume "\<exists>es. trace w' = trace w @ es \<and> list_all is_passive es \<and> stdin w' = stdin w"
  then show "passive_extension w w'"
    by (auto simp: passive_extension_def events_since_def)
qed

lemma passive_extension_refl: "passive_extension w w"
  by (simp add: passive_extension_def events_since_def)

lemma passive_extension_trans:
  "passive_extension w w1 \<Longrightarrow> passive_extension w1 w2 \<Longrightarrow> passive_extension w w2"
  unfolding passive_extension_iff by auto

lemma passive_extension_log: "passive_extension w (log lvl fmt args w)"
  by (simp add: passive_extension_iff log_def emit_def)

lemma seed_settings_passive:
  "seed_settings sd c w = (r, w') \<Longrightarrow> passive_extension w w' \<and> r \<noteq> Hangs"
  by (auto simp: seed_settings_def passive_extension_iff log_def emit_def
      split: option.splits)

lemma build_deployer_passive:
  "build_deployer dep sd at nm c w = (r, w') \<Longrightarrow> passive_extension w w' \<and> r \<noteq> Hangs"
  by (cases "seed_settings sd c w")
     (auto simp: build_deployer_def and_then_def dest: seed_settings_passive
        split: outcome.splits option.splits prod.splits)

lemma build_nodes_passive:
  "build_nodes dep sd at confs both w = (r, w') \<Longrightarrow> passive_extension w w' \<and> r \<noteq> Hangs"
proof (induction confs arbitrary: both w)
  case Nil
  then show ?case by (cases both) (auto simp: passive_extension_refl)
next
  case (Cons nc confs)
  obtain nm c where nc: "nc = (nm, c)" by (cases nc)
  obtain ec2s rdss where both: "both = (ec2s, rdss)" by (cases both)
  obtain r1 w1 where step: "build_deployer dep sd at nm c w = (r1, w1)"
    by (cases "build_deployer dep sd at nm c w")
  from build_deployer_passive [OF step] have p1: "passive_extension w w1" and h1: "r1 \<noteq> Hangs"
    by simp_all
  show ?case
  proof (cases r1)
    case (Returns d)
    with Cons.prems nc both step obtain both' where
      "build_nodes dep sd at confs both' w1 = (r, w')"
      by (auto split: if_splits)
    from Cons.IH [OF this] p1 show ?thesis
      by (blast intro: passive_extension_trans)
  next
    case (Raises e)
    with Cons.prems nc both step p1 show ?thesis by auto
  next
    case Hangs
    with h1 show ?thesis by simp
  qed
qed

lemma build_sections_passive:
  "build_sections dep sd secs both w = (r, w') \<Longrightarrow> passive_extension w w' \<and> r \<noteq> Hangs"
proof (induction secs arbitrary: both w)
  case Nil
  then show ?case by (auto simp: passive_extension_refl)
next
  case (Cons sec secs)
  obtain at confs where sec: "sec = (at, confs)" by (cases sec)
  obtain r1 w1 where step: "build_nodes dep sd at confs both w = (r1, w1)"
    by (cases "build_nodes dep sd at confs both w")
  from build_nodes_passive [OF step] have p1: "passive_extension w w1" and h1: "r1 \<noteq> Hangs"
    by simp_all
  show ?case
  proof (cases r1)
    case (Returns both')
    with Cons.prems sec step have "build_sections dep sd secs both' w1 = (r, w')"
      by simp
    from Cons.IH [OF this] p1 show ?thesis
      by (blast intro: passive_extension_trans)
  next
    case (Raises e)
    with Cons.prems sec step p1 show ?thesis by auto
  next
    case Hangs
    with h1 show ?thesis by simp
  qed
qed

lemma build_deployers_passive:
  "build_deployers dep sd cfg w = (r, w') \<Longrightarrow> passive_extension w w' \<and> r \<noteq> Hangs"
  unfolding build_deployers_def Let_def by (rule build_sections_passive)

lemma verify_deployment_state_passive:
  "verify_deployment_state x name vo w = (r, w') \<Longrightarrow> passive_extension w w' \<and> r \<noteq> Hangs"
  by (auto simp: verify_deployment_state_def external_call_def passive_extension_iff emit_def
      split: option.splits)

lemma gather_seed_deployment_passive:
  "gather_seed_deployment x name w = (r, w') \<Longrightarrow> passive_extension w w' \<and> r \<noteq> Hangs"
  by (auto simp: gather_seed_deployment_def and_then_def verify_deployment_state_def
      external_call_def passive_extension_iff emit_def log_def
      split: option.splits if_splits)

text \<open>A sufficient condition for the building phase to complete.\<close>

lemma build_deployer_returns:
  assumes "seed_keys_complete c" and "at = ''ec2'' \<or> at = ''rds''"
  shows "\<exists>d w'. build_deployer dep sd at nm c w = (Returns d, w')"
  using assms
  by (auto simp: build_deployer_def and_then_def seed_settings_def seed_keys_complete_def
      split: option.splits)

lemma build_nodes_returns:
  assumes "at = ''ec2'' \<or> at = ''rds''"
  shows "\<forall>(nm, c) \<in> set confs. seed_keys_complete c \<Longrightarrow>
    \<exists>both' w'. build_nodes dep sd at confs both w = (Returns both', w')"
proof (induction confs arbitrary: both w)
  case Nil
  then show ?case by (cases both) simp
next
  case (Cons nc confs)
  obtain nm c where nc: "nc = (nm, c)" by (cases nc)
  obtain ec2s rdss where both: "both = (ec2s, rdss)" by (cases both)
  from Cons.prems nc have "seed_keys_complete c" by simp
  from build_deployer_returns [OF this assms, of dep sd nm w]
  obtain d w1 where step: "build_deployer dep sd at nm c w = (Returns d, w1)" by blast
  from Cons.prems have "\<forall>(nm, c) \<in> set confs. seed_keys_complete c" by simp
  from Cons.IH [OF this] nc both step show ?case by simp
qed

lemma build_deployers_returns:
  assumes "\<forall>(nm, c) \<in> set (get_section cfg ''ec2'' @ get_section cfg ''rds''). seed_keys_complete c"
  shows "\<exists>both' w'. build_deployers dep sd cfg w = (Returns both', w')"
proof -
  from assms have e: "\<forall>(nm, c) \<in> set (get_section cfg ''ec2''). seed_keys_complete c"
    and r: "\<forall>(nm, c) \<in> set (get_section cfg ''rds''). seed_keys_complete c"
    by auto
  from build_nodes_returns [OF _ e, of "''rds''" dep sd "([], [])" w]
  obtain b1 w1 where s1: "build_nodes dep sd ''rds'' (get_section cfg ''ec2'') ([], []) w = (Returns b1, w1)"
    by auto
  from build_nodes_returns [OF _ r, of "''ec2''" dep sd b1 w1]
  obtain b2 w2 where s2: "build_nodes dep sd ''ec2'' (get_section cfg ''rds'') b1 w1 = (Returns b2, w2)"
    by auto
  from s1 s2 show ?thesis
    by (simp add: build_deployers_def)
qed

lemma assertion_stops: "and_then (py_assert False) k w = (Raises AssertionError, w)"
  by (simp add: and_then_def py_assert_def)

text \<open>
  The result of \<open>up\<close> does not depend on what the nodes, the deployers and the
  deployment would answer after the assertion: none of them is asked.
\<close>

lemma up_reads_no_node:
  "up (x\<lparr>get_node_at := g, ensure_node_created_fails := cf, run_fails := rf,
          is_operational_at := op, is_healthy_at := h, has_required_redundancy_at := rd,
          make_operational_fails := mf, repair_active_generation_at := rp,
          active_is_fully_operational_at := fo\<rparr>) environment_name generation w =
   up x environment_name generation w"
proof -
  let ?x' = "x\<lparr>get_node_at := g, ensure_node_created_fails := cf, run_fails := rf,
          is_operational_at := op, is_healthy_at := h, has_required_redundancy_at := rd,
          make_operational_fails := mf, repair_active_generation_at := rp,
          active_is_fully_operational_at := fo\<rparr>"
  have verify: "verify_deployment_state ?x' = verify_deployment_state x"
    by (intro ext) (simp add: verify_deployment_state_def)
  then have "gather_seed_deployment ?x' = gather_seed_deployment x"
    by (intro ext) (simp add: gather_seed_deployment_def split: option.splits)
  with verify show ?thesis
    by (simp add: up_def Let_def assertion_stops)
qed

text \<open>
  C2, amended. Every invocation of \<open>up\<close> that reaches the deployer-building phase (both
  verifications return) and completes it (the building loops return the two lists)
  raises the \<open>AssertionError\<close> of \<open>assert False\<close>. And every invocation of \<open>up\<close>, whether
  that phase completes or raises, ends by raising, having added to the trace only log
  records and \<open>verify_deployment_state\<close> calls and read no line of the operator: no
  prompt (so no Seed Verification Gate), no \<open>ensure_node_created()\<close>, no \<open>run()\<close>, no
  operation on a node. The scheduler is not called: the result is the same whatever
  \<open>get_node()\<close>, \<open>is_operational\<close> and \<open>is_healthy\<close> (all that the scheduler reads) and
  the other collaborators of the code after the assertion would answer.
\<close>

theorem up_stops_before_provisioning:
  "up (x\<lparr>get_node_at := g, ensure_node_created_fails := cf, run_fails := rf,
          is_operational_at := op, is_healthy_at := h, has_required_redundancy_at := rd,
          make_operational_fails := mf, repair_active_generation_at := rp,
          active_is_fully_operational_at := fo\<rparr>) environment_name generation w =
     up x environment_name generation w \<and>
   (\<exists>r w'. up x environment_name generation w = (r, w') \<and>
     (\<exists>e. r = Raises e) \<and> passive_extension w w' \<and>
     ((\<exists>u w1 seed_deployment' w2 both' w3.
          verify_deployment_state x environment_name (Some False)
            (log Info ''Gathering deployment state'' [] w) = (Returns u, w1) \<and>
          gather_seed_deployment x environment_name
            (log Info ''Gathering seed deployment state'' [] w1) = (Returns seed_deployment', w2) \<and>
          build_deployers environment_name seed_deployment'
            (get_environment_config x environment_name)
            (log Info ''Building Node deployers'' [] w2) = (Returns both', w3))
      \<longrightarrow> r = Raises AssertionError))"
proof -
  let ?cfg = "get_environment_config x environment_name"
  let ?w0 = "log Info ''Gathering deployment state'' [] w"
  have p0: "passive_extension w ?w0" by (rule passive_extension_log)
  obtain r1 w1 where v: "verify_deployment_state x environment_name (Some False) ?w0 = (r1, w1)"
    by (cases "verify_deployment_state x environment_name (Some False) ?w0")
  from verify_deployment_state_passive [OF v] p0
  have p1: "passive_extension w w1" and h1: "r1 \<noteq> Hangs"
    by (blast intro: passive_extension_trans)+
  let ?w1' = "log Info ''Gathering seed deployment state'' [] w1"
  obtain r2 w2 where g: "gather_seed_deployment x environment_name ?w1' = (r2, w2)"
    by (cases "gather_seed_deployment x environment_name ?w1'")
  from gather_seed_deployment_passive [OF g] p1 passive_extension_log [of w1]
  have p2: "passive_extension w w2" and h2: "r2 \<noteq> Hangs"
    by (blast intro: passive_extension_trans)+
  let ?w2' = "log Info ''Building Node deployers'' [] w2"
  have build: "\<exists>r3 w3. build_deployers environment_name sd ?cfg ?w2' = (r3, w3) \<and>
      passive_extension w w3 \<and> r3 \<noteq> Hangs" for sd
  proof -
    obtain r3 w3 where b: "build_deployers environment_name sd ?cfg ?w2' = (r3, w3)"
      by (cases "build_deployers environment_name sd ?cfg ?w2'")
    from build_deployers_passive [OF b] p2 passive_extension_log [of w2]
    have "passive_extension w w3" and "r3 \<noteq> Hangs"
      by (blast intro: passive_extension_trans)+
    with b show ?thesis by blast
  qed
  have up_eq: "up x environment_name generation w =
    (case r1 of
       Returns u \<Rightarrow>
         (case r2 of
            Returns sd \<Rightarrow>
              (case build_deployers environment_name sd ?cfg ?w2' of
                 (Returns both', w3) \<Rightarrow> (Raises AssertionError, w3)
               | (Raises e, w3) \<Rightarrow> (Raises e, w3)
               | (Hangs, w3) \<Rightarrow> (Hangs, w3))
          | Raises e \<Rightarrow> (Raises e, w2)
          | Hangs \<Rightarrow> (Hangs, w2))
     | Raises e \<Rightarrow> (Raises e, w1)
     | Hangs \<Rightarrow> (Hangs, w1))"
    using v g
    by (auto simp: up_def Let_def and_then_def py_assert_def split: outcome.splits prod.splits)
  have "\<exists>r w'. up x environment_name generation w = (r, w') \<and>
     (\<exists>e. r = Raises e) \<and> passive_extension w w' \<and>
     ((\<exists>u w1 seed_deployment' w2 both' w3.
          verify_deployment_state x environment_name (Some False) ?w0 = (Returns u, w1) \<and>
          gather_seed_deployment x environment_name
            (log Info ''Gathering seed deployment state'' [] w1) = (Returns seed_deployment', w2) \<and>
          build_deployers environment_name seed_deployment' ?cfg
            (log Info ''Building Node deployers'' [] w2) = (Returns both', w3))
      \<longrightarrow> r = Raises AssertionError)"
  proof (cases r1)
    case (Raises e)
    with up_eq p1 v show ?thesis by auto
  next
    case Hangs
    with h1 show ?thesis by simp
  next
    case r1: (Returns u)
    show ?thesis
    proof (cases r2)
      case (Raises e)
      with up_eq r1 p2 v g show ?thesis by auto
    next
      case Hangs
      with h2 show ?thesis by simp
    next
      case r2: (Returns sd)
      from build [of sd] obtain r3 w3 where
        b: "build_deployers environment_name sd ?cfg ?w2' = (r3, w3)"
        and p3: "passive_extension w w3" and h3: "r3 \<noteq> Hangs"
        by blast
      show ?thesis
      proof (cases r3)
        case (Returns both')
        with up_eq r1 r2 b p3 show ?thesis by auto
      next
        case (Raises e)
        with up_eq r1 r2 b p3 v g show ?thesis by auto
      next
        case Hangs
        with h3 show ?thesis by simp
      qed
    qed
  qed
  then show ?thesis
    by (simp only: up_reads_no_node simp_thms)
qed

theorem up_stops_before_provisioning_witness:
  "up (idle_fleet\<lparr>get_environment_config := (\<lambda>name. [(''ec2'', [(''web0'', half_seeded_conf)])])\<rparr>)
      ''prod'' ''active'' (fresh [''Yes'']) =
     (Raises AssertionError,
      \<lparr>trace = [Log Info ''Gathering deployment state'' [],
                VerifyDeploymentState ''prod'' (Some False),
                Log Info ''Gathering seed deployment state'' [],
                Log Info ''Building Node deployers'' [],
                Log Info ''No seed node configured'' []],
       stdin = [''Yes'']\<rparr>)"
proof -
  let ?x = "idle_fleet\<lparr>get_environment_config := (\<lambda>name. [(''ec2'', [(''web0'', half_seeded_conf)])])\<rparr>"
  let ?w1 = "\<lparr>trace = [Log Info ''Gathering deployment state'' [],
      VerifyDeploymentState ''prod'' (Some False)], stdin = [''Yes'']\<rparr>"
  let ?w2 = "\<lparr>trace = [Log Info ''Gathering deployment state'' [],
      VerifyDeploymentState ''prod'' (Some False),
      Log Info ''Gathering seed deployment state'' []], stdin = [''Yes'']\<rparr>"
  let ?w3 = "\<lparr>trace = [Log Info ''Gathering deployment state'' [],
      VerifyDeploymentState ''prod'' (Some False),
      Log Info ''Gathering seed deployment state'' [],
      Log Info ''Building Node deployers'' [],
      Log Info ''No seed node configured'' []], stdin = [''Yes'']\<rparr>"
  have reached: "verify_deployment_state ?x ''prod'' (Some False)
      (log Info ''Gathering deployment state'' [] (fresh [''Yes''])) = (Returns (), ?w1)"
    by (simp add: verify_deployment_state_def external_call_def idle_fleet_def fresh_def
        log_def emit_def)
  have seed: "gather_seed_deployment ?x ''prod''
      (log Info ''Gathering seed deployment state'' [] ?w1) = (Returns None, ?w2)"
    by (simp add: gather_seed_deployment_def idle_fleet_def log_def emit_def)
  have completed: "\<exists>both'. build_deployers ''prod'' None (get_environment_config ?x ''prod'')
      (log Info ''Building Node deployers'' [] ?w2) = (Returns both', ?w3)"
    by (simp add: build_deployers_def build_deployer_def seed_settings_def and_then_def
        get_section_def half_seeded_conf_def log_def emit_def)
  from up_stops_before_provisioning [where x = ?x and environment_name = "''prod''"
      and generation = "''active''" and w = "fresh [''Yes'']"]
  obtain r w' where run: "up ?x ''prod'' ''active'' (fresh [''Yes'']) = (r, w')"
    and stops: "(\<exists>u w1 seed_deployment' w2 both' w3.
          verify_deployment_state ?x ''prod'' (Some False)
            (log Info ''Gathering deployment state'' [] (fresh [''Yes''])) = (Returns u, w1) \<and>
          gather_seed_deployment ?x ''prod''
            (log Info ''Gathering seed deployment state'' [] w1) = (Returns seed_deployment', w2) \<and>
          build_deployers ''prod'' seed_deployment' (get_environment_config ?x ''prod'')
            (log Info ''Building Node deployers'' [] w2) = (Returns both', w3))
      \<longrightarrow> r = Raises AssertionError"
    by blast
  from reached seed completed stops have "r = Raises AssertionError"
    by blast
  moreover have "snd (up ?x ''prod'' ''active'' (fresh [''Yes''])) = ?w3"
    by (simp add: up_def Let_def and_then_def py_assert_def verify_deployment_state_def
        external_call_def gather_seed_deployment_def build_deployers_def build_deployer_def
        seed_settings_def get_section_def half_seeded_conf_def idle_fleet_def fresh_def
        log_def emit_def)
  ultimately show ?thesis using run by simp
qed

text \<open>
  C2, as stated, fails: an invocation that reaches the deployer-building phase can end
  in another exception than \<open>AssertionError\<close>. With a seed environment configured and a
  node configuration that has \<open>'seed'\<close> and no \<open>'seed_node'\<close>, line 166 raises
  \<open>KeyError\<close> before \<open>assert False\<close> is reached.
\<close>

theorem up_key_error_counterexample:
  "fst (up (idle_fleet\<lparr>get_environment_config := (\<lambda>name. [(''ec2'', [(''web0'', half_seeded_conf)])]),
                      get_seed_environment_name := (\<lambda>name. Some ''staging'')\<rparr>)
          ''prod'' ''active'' (fresh [])) = Raises (KeyError ''seed_node'')"
  by (simp add: up_def Let_def and_then_def verify_deployment_state_def external_call_def
      gather_seed_deployment_def build_deployers_def build_deployer_def seed_settings_def
      get_section_def half_seeded_conf_def idle_fleet_def fresh_def log_def emit_def)

text \<open>
  What the building phase does on every configuration: one deployer per configured
  node, where the nodes of the section \<open>'ec2'\<close> become the \<open>rds_deployers\<close>, each an
  \<open>RdsNodeDeployment\<close>, and the nodes of the section \<open>'rds'\<close> become the \<open>ec2_deployers\<close>,
  each an \<open>Ec2NodeDeployment\<close>.
\<close>

lemma build_nodes_classes:
  assumes "build_nodes dep sd at confs (ec2s, rdss) w = (Returns (ec2s', rdss'), w')"
  shows "(at = ''rds'' \<longrightarrow>
            ec2s' = ec2s \<and> (\<exists>new. rdss' = rdss @ new \<and> map node_name new = map fst confs \<and>
              list_all (\<lambda>d. klass d = RdsNodeDeployment) new)) \<and>
         (at = ''ec2'' \<longrightarrow>
            rdss' = rdss \<and> (\<exists>new. ec2s' = ec2s @ new \<and> map node_name new = map fst confs \<and>
              list_all (\<lambda>d. klass d = Ec2NodeDeployment) new))"
  using assms
proof (induction confs arbitrary: ec2s rdss w)
  case Nil
  then show ?case by simp
next
  case (Cons nc confs)
  obtain nm c where nc: "nc = (nm, c)" by (cases nc)
  obtain r1 w1 where step: "build_deployer dep sd at nm c w = (r1, w1)"
    by (cases "build_deployer dep sd at nm c w")
  with Cons.prems nc obtain d where r1: "r1 = Returns d"
    by (cases r1) auto
  from step r1 have d: "node_name d = nm"
    "at = ''rds'' \<longrightarrow> klass d = RdsNodeDeployment" "at = ''ec2'' \<longrightarrow> klass d = Ec2NodeDeployment"
    by (auto simp: build_deployer_def and_then_def split: outcome.splits prod.splits if_splits)
  show ?case
  proof (cases "at = ''ec2''")
    case True
    with Cons.prems nc step r1
    have "build_nodes dep sd at confs (ec2s @ [d], rdss) w1 = (Returns (ec2s', rdss'), w')"
      by simp
    from Cons.IH [OF this] True obtain new where
      "rdss' = rdss" "ec2s' = (ec2s @ [d]) @ new" "map node_name new = map fst confs"
      "list_all (\<lambda>d. klass d = Ec2NodeDeployment) new"
      by auto
    with True d nc have "rdss' = rdss \<and> ec2s' = ec2s @ (d # new) \<and>
        map node_name (d # new) = map fst (nc # confs) \<and>
        list_all (\<lambda>d. klass d = Ec2NodeDeployment) (d # new)"
      by simp
    with True show ?thesis by blast
  next
    case notec2: False
    show ?thesis
    proof (cases "at = ''rds''")
      case True
      with Cons.prems nc step r1
      have "build_nodes dep sd at confs (ec2s, rdss @ [d]) w1 = (Returns (ec2s', rdss'), w')"
        by simp
      from Cons.IH [OF this] True obtain new where
        "ec2s' = ec2s" "rdss' = (rdss @ [d]) @ new" "map node_name new = map fst confs"
        "list_all (\<lambda>d. klass d = RdsNodeDeployment) new"
        by auto
      with True d nc have "ec2s' = ec2s \<and> rdss' = rdss @ (d # new) \<and>
          map node_name (d # new) = map fst (nc # confs) \<and>
          list_all (\<lambda>d. klass d = RdsNodeDeployment) (d # new)"
        by simp
      with True show ?thesis by blast
    next
      case False
      with notec2 show ?thesis by simp
    qed
  qed
qed

lemma build_deployers_classes:
  assumes "build_deployers dep sd cfg w = (Returns (ec2_deployers, rds_deployers), w')"
  shows "map node_name rds_deployers = map fst (get_section cfg ''ec2'') \<and>
         list_all (\<lambda>d. klass d = RdsNodeDeployment) rds_deployers \<and>
         map node_name ec2_deployers = map fst (get_section cfg ''rds'') \<and>
         list_all (\<lambda>d. klass d = Ec2NodeDeployment) ec2_deployers"
proof -
  obtain r1 w1 where s1: "build_nodes dep sd ''rds'' (get_section cfg ''ec2'') ([], []) w = (r1, w1)"
    by (cases "build_nodes dep sd ''rds'' (get_section cfg ''ec2'') ([], []) w")
  with assms obtain e1 d1 where r1: "r1 = Returns (e1, d1)"
    by (cases r1) (auto simp: build_deployers_def)
  from assms s1 r1 have s2:
    "build_nodes dep sd ''ec2'' (get_section cfg ''rds'') (e1, d1) w1 =
       (Returns (ec2_deployers, rds_deployers), w')"
    by (auto simp: build_deployers_def split: outcome.splits prod.splits)
  from build_nodes_classes [OF s1 [unfolded r1]] build_nodes_classes [OF s2]
  show ?thesis by auto
qed

text \<open>
  C3. Claim: every node of the section \<open>'rds'\<close> gets an \<open>RdsNodeDeployment\<close> and every
  node of the section \<open>'ec2'\<close> an \<open>Ec2NodeDeployment\<close>. \<open>dep_confs\<close> pairs \<open>'rds'\<close> with
  the section \<open>'ec2'\<close> and \<open>'ec2'\<close> with the section \<open>'rds'\<close>: on the configuration with
  \<open>web0\<close> under \<open>'ec2'\<close> and \<open>db0\<close> under \<open>'rds'\<close>, the building phase returns
  \<open>ec2_deployers\<close> holding an \<open>Ec2NodeDeployment\<close> for \<open>db0\<close> and \<open>rds_deployers\<close> holding an
  \<open>RdsNodeDeployment\<close> for \<open>web0\<close>.
\<close>

theorem build_deployers_swaps_sections:
  "build_deployers ''prod'' None two_node_config (fresh []) =
     (Returns
        ([\<lparr>klass = Ec2NodeDeployment, deployment = ''prod'', seed_deployment = None,
           is_active = True, aws_type = ''ec2'', node_name = ''db0'', seed_node_name = None,
           seed_verification = False, brain_wrinkles_arg = [], conf = plain_conf\<rparr>],
         [\<lparr>klass = RdsNodeDeployment, deployment = ''prod'', seed_deployment = None,
           is_active = True, aws_type = ''rds'', node_name = ''web0'', seed_node_name = None,
           seed_verification = False, brain_wrinkles_arg = [], conf = plain_conf\<rparr>]),
      \<lparr>trace = [Log Info ''No seed node configured'' [], Log Info ''No seed node configured'' []],
       stdin = []\<rparr>)"
  by (simp add: build_deployers_def build_deployer_def seed_settings_def and_then_def
      get_section_def two_node_config_def plain_conf_def fresh_def log_def emit_def)

section \<open>Properties of the Repair Orchestrator\<close>

text \<open>
  C10. When \<open>env\<close> holds the three required attributes (with \<open>_active_gen\<close> true and the
  three sections in \<open>_deployment_confs\<close>) and \<open>verify_deployment_state()\<close> succeeds,
  \<open>repair\<close> calls \<open>repair_active_generation\<close> with \<open>force_operational\<close> equal to
  \<open>force == 'y'\<close>, logs "No nodes modified" when the sequence returned is empty and
  "Succesfully made %s node(s) operational" with its length otherwise, and returns: the
  action ends with exit status zero.
\<close>

theorem repair_reports_activated_nodes:
  assumes env: "deployment_name env = Some name" "deployment_confs env = Some confs"
      "active_gen env = Some True"
    and keys: "map_of confs ''ec2'' \<noteq> None" "map_of confs ''rds'' \<noteq> None" "map_of confs ''elb'' \<noteq> None"
    and verified: "verify_deployment_state_fails x (trace w) name = None"
  shows "repair x env force w =
    (Returns (),
     w\<lparr>trace := trace w @
        [VerifyDeploymentState name None,
         RepairActiveGeneration (force = ''y'') None,
         (let activated_nodes =
                repair_active_generation_at x (trace w @ [VerifyDeploymentState name None])
                  (force = ''y'') None
          in if activated_nodes = [] then Log Info ''No nodes modified'' []
             else Log Info ''Succesfully made %s node(s) operational'' [N (length activated_nodes)])]\<rparr>)"
  using assms
  by (auto simp: repair_def and_then_def require_def py_assert_def verify_deployment_state_def
      external_call_def Let_def log_def emit_def)

theorem repair_reports_activated_nodes_witness:
  "repair idle_fleet prod_env ''n'' (fresh []) =
     (Returns (),
      \<lparr>trace = [VerifyDeploymentState ''prod'' None, RepairActiveGeneration False None,
                Log Info ''No nodes modified'' []],
       stdin = []\<rparr>) \<and>
   repair (idle_fleet\<lparr>repair_active_generation_at := (\<lambda>t force wait. [''node-a'', ''node-b''])\<rparr>)
       prod_env ''y'' (fresh []) =
     (Returns (),
      \<lparr>trace = [VerifyDeploymentState ''prod'' None, RepairActiveGeneration True None,
                Log Info ''Succesfully made %s node(s) operational'' [N 2]],
       stdin = []\<rparr>)"
proof -
  let ?x = "idle_fleet\<lparr>repair_active_generation_at := (\<lambda>t force wait. [''node-a'', ''node-b''])\<rparr>"
  have env: "deployment_name prod_env = Some ''prod''"
    "deployment_confs prod_env = Some [(''ec2'', []), (''rds'', []), (''elb'', [])]"
    "active_gen prod_env = Some True"
    by (simp_all add: prod_env_def)
  have keys: "map_of [(''ec2'', []), (''rds'', []), (''elb'', [])] ''ec2'' \<noteq> (None :: (string \<times> node_conf) list option)"
    "map_of [(''ec2'', []), (''rds'', []), (''elb'', [])] ''rds'' \<noteq> (None :: (string \<times> node_conf) list option)"
    "map_of [(''ec2'', []), (''rds'', []), (''elb'', [])] ''elb'' \<noteq> (None :: (string \<times> node_conf) list option)"
    by simp_all
  have v1: "verify_deployment_state_fails idle_fleet (trace (fresh [])) ''prod'' = None"
    and v2: "verify_deployment_state_fails ?x (trace (fresh [])) ''prod'' = None"
    by (simp_all add: idle_fleet_def)
  from repair_reports_activated_nodes [OF env keys v1, of "''n''"]
    repair_reports_activated_nodes [OF env keys v2, of "''y''"]
  show ?thesis
    by (simp add: idle_fleet_def fresh_def)
qed

end
